theory Spec2Isabelle
  imports Complex_Main
begin

section \<open>Data model of the interview session component\<close>

text \<open>
  The component \<^verbatim>\<open>InterviewSession\<close> (src/components/InterviewSession.tsx) is a set
  of callbacks that read and write React state and refs.  Each callback is embedded as
  a function on one record holding that state; calls into the browser and the
  transport (release steps, source starts, outbound audio) and the call of
  \<^verbatim>\<open>onComplete\<close> are appended to a trace, in the order in which they are made.
  Times of the audio clock and samples are real numbers, the wall clock counts
  milliseconds.  The arithmetic of the voice activity detection is that of IEEE 754
  double precision.
\<close>

datatype status = Connecting | Connected | Error

datatype speaker = User | AI

datatype ctxState = Suspended | Running | Closed

text \<open>Handles whose release call sits inside a \<^verbatim>\<open>try\<close>: the flag says whether the call throws.\<close>

datatype transport = Transport (closeThrows: bool)

datatype source = Source (stopThrows: bool)

record functionCall =
  fc_name :: string
  fc_reason :: "string option"

text \<open>
  A part of a model turn: its text, and for inline audio the duration in seconds of
  the buffer that \<^verbatim>\<open>decodeAudioData\<close> returns for it.
\<close>

record part =
  part_text :: "string option"
  part_inlineData :: "real option"

record serverContent =
  modelTurn_parts :: "part list option"
  turnComplete :: bool

record liveServerMessage =
  toolCall :: "functionCall list option"
  serverContent :: "serverContent option"

datatype effect =
    DetachCaptureCallback
  | DisconnectProcessor
  | CloseTransport
  | ConsoleError
  | StopTrack nat
  | CloseOutputContext
  | CloseInputContext
  | CancelAnimationFrame nat
  | StopSource source
  | StartSource real real
  | SendRealtimeInput "real list"
  | OnComplete string string

record session =
  status :: status
  transcriptLines :: "(speaker \<times> string) list"
  isUserSpeaking :: bool
  systemMessageLog :: "string list"
  timeLeft :: int
  isMounted :: bool
  audioContextRef :: "ctxState option"
  inputAudioContextRef :: "ctxState option"
  scriptProcessorRef :: bool
  onaudioprocess :: bool
  sourcesRef :: "source list"
  nextAudioStartTime :: real
  sessionRef :: "transport option"
  streamRef :: "nat list option"
  animationRef :: nat
  terminationTriggered :: bool
  isConnected :: bool
  isAiSpeaking :: bool
  lastUserSpeechTime :: nat
  fullTranscriptHistory :: "string list"
  isWaitingForResponse :: bool
  tabSwitchCount :: nat
  now :: nat
  pendingTimeouts :: "(nat \<times> string) list"
  completed :: "(string \<times> string) list"
  trace :: "effect list"

text \<open>
  \<open>systemMessageLog\<close> lists the arguments of the calls of \<^verbatim>\<open>setSystemMessageStatus\<close>, the
  last one being displayed.  \<open>pendingTimeouts\<close> holds the closures handed to
  \<^verbatim>\<open>setTimeout\<close>, each with its due time and the reason it captured; \<open>completed\<close> lists
  the calls of \<^verbatim>\<open>onComplete\<close>.  \<open>scriptProcessorRef\<close> says that the ref is not null,
  \<open>onaudioprocess\<close> that the capture callback is attached to the node.
\<close>

definition initial :: session where
  "initial = \<lparr> status = Connecting, transcriptLines = [], isUserSpeaking = False,
     systemMessageLog = [], timeLeft = 600, isMounted = False,
     audioContextRef = None, inputAudioContextRef = None, scriptProcessorRef = False,
     onaudioprocess = False, sourcesRef = [], nextAudioStartTime = 0, sessionRef = None,
     streamRef = None, animationRef = 0, terminationTriggered = False,
     isConnected = False, isAiSpeaking = False, lastUserSpeechTime = 0,
     fullTranscriptHistory = [], isWaitingForResponse = False, tabSwitchCount = 0,
     now = 0, pendingTimeouts = [], completed = [], trace = [] \<rparr>"

section \<open>Strings\<close>

definition digits :: string where
  "digits = ''0123456789''"

function string_of_nat :: "nat \<Rightarrow> string" where
  "string_of_nat n =
     (if n < 10 then [digits ! n] else string_of_nat (n div 10) @ [digits ! (n mod 10)])"
  by pat_completeness auto
termination
  by (relation "measure id") auto

text \<open>\<^verbatim>\<open>Array.prototype.join('\n')\<close>.\<close>

fun join_lines :: "string list \<Rightarrow> string" where
  "join_lines [] = []"
| "join_lines [x] = x"
| "join_lines (x # y # ys) = x @ [CHR 0x0A] @ join_lines (y # ys)"

section \<open>Cleanup and termination\<close>

definition close_transport :: "transport \<Rightarrow> unit + unit" where
  "close_transport t = (if closeThrows t then Inl () else Inr ())"

definition disconnect_scriptProcessor :: "session \<Rightarrow> session" where
  "disconnect_scriptProcessor s =
     (if scriptProcessorRef s
      then s\<lparr>onaudioprocess := False, scriptProcessorRef := False,
             trace := trace s @ [DetachCaptureCallback, DisconnectProcessor]\<rparr>
      else s)"

definition disconnect_session :: "session \<Rightarrow> session" where
  "disconnect_session s =
     (case sessionRef s of
        None \<Rightarrow> s
      | Some t \<Rightarrow>
          (case close_transport t of
             Inl e \<Rightarrow> s\<lparr>sessionRef := None, trace := trace s @ [CloseTransport, ConsoleError]\<rparr>
           | Inr u \<Rightarrow> s\<lparr>sessionRef := None, trace := trace s @ [CloseTransport]\<rparr>))"

definition disconnect_stream :: "session \<Rightarrow> session" where
  "disconnect_stream s =
     (case streamRef s of
        None \<Rightarrow> s
      | Some tracks \<Rightarrow> s\<lparr>streamRef := None, trace := trace s @ map StopTrack tracks\<rparr>)"

definition disconnect_audioContext :: "session \<Rightarrow> session" where
  "disconnect_audioContext s =
     (case audioContextRef s of
        None \<Rightarrow> s
      | Some st \<Rightarrow>
          if st \<noteq> Closed
          then s\<lparr>audioContextRef := Some Closed, trace := trace s @ [CloseOutputContext]\<rparr>
          else s)"

definition disconnect_inputAudioContext :: "session \<Rightarrow> session" where
  "disconnect_inputAudioContext s =
     (case inputAudioContextRef s of
        None \<Rightarrow> s
      | Some st \<Rightarrow>
          if st \<noteq> Closed
          then s\<lparr>inputAudioContextRef := Some Closed, trace := trace s @ [CloseInputContext]\<rparr>
          else s)"

definition disconnect_animation :: "session \<Rightarrow> session" where
  "disconnect_animation s =
     (if animationRef s \<noteq> 0
      then s\<lparr>trace := trace s @ [CancelAnimationFrame (animationRef s)]\<rparr>
      else s)"

definition stop_source :: "source \<Rightarrow> unit + unit" where
  "stop_source src = (if stopThrows src then Inl () else Inr ())"

text \<open>\<^verbatim>\<open>sourcesRef.current.forEach(source => { try { source.stop(); } catch(e) {} })\<close>.\<close>

fun stop_sources :: "source list \<Rightarrow> effect list" where
  "stop_sources [] = []"
| "stop_sources (src # rest) =
     (case stop_source src of
        Inl e \<Rightarrow> StopSource src # stop_sources rest
      | Inr u \<Rightarrow> StopSource src # stop_sources rest)"

definition disconnect_sources :: "session \<Rightarrow> session" where
  "disconnect_sources s = s\<lparr>sourcesRef := [], trace := trace s @ stop_sources (sourcesRef s)\<rparr>"

text \<open>
  \<^verbatim>\<open>disconnect\<close>: the blocks of the function body in the order of the source.  The two
  calls that may throw, \<^verbatim>\<open>sessionRef.current.close()\<close> and \<^verbatim>\<open>source.stop()\<close>, are caught
  where they are made.
\<close>

definition disconnect :: "session \<Rightarrow> session" where
  "disconnect s =
     disconnect_sources (disconnect_animation (disconnect_inputAudioContext
       (disconnect_audioContext (disconnect_stream (disconnect_session
         (disconnect_scriptProcessor (s\<lparr>isConnected := False\<rparr>)))))))"

definition handleTermination :: "string \<Rightarrow> session \<Rightarrow> session" where
  "handleTermination reason s =
     (if terminationTriggered s then s
      else s\<lparr>terminationTriggered := True,
             systemMessageLog := systemMessageLog s @ [''Ending: '' @ reason],
             pendingTimeouts := pendingTimeouts s @ [(now s + 2000, reason)]\<rparr>)"

text \<open>The closure given to \<^verbatim>\<open>setTimeout\<close> by \<^verbatim>\<open>handleTermination\<close>.\<close>

definition shutdown :: "string \<Rightarrow> session \<Rightarrow> session" where
  "shutdown reason s =
     (let s' = disconnect s;
          transcript = join_lines (fullTranscriptHistory s')
      in s'\<lparr>completed := completed s' @ [(transcript, reason)],
            trace := trace s' @ [OnComplete transcript reason]\<rparr>)"

section \<open>Capture: resampling\<close>

text \<open>
  Modelled from the spec: the sample that \<^verbatim>\<open>downsampleBuffer\<close> of \<^verbatim>\<open>utils/audio\<close> computes
  at a fractional source index, by linear interpolation between the input samples on
  either side of it.  The component imports that function; its source is not part of
  the files at hand.  Where there is no right neighbour the left one is taken again, and
  an index past the end reads \<open>0\<close>.
\<close>

definition interpolate :: "real list \<Rightarrow> real \<Rightarrow> real" where
  "interpolate buffer pos =
     (let idx = nat \<lfloor>pos\<rfloor>;
          frac = pos - real idx;
          a = (if idx < length buffer then buffer ! idx else 0);
          b = (if idx + 1 < length buffer then buffer ! (idx + 1) else a)
      in a + (b - a) * frac)"

text \<open>
  Modelled from the spec: \<^verbatim>\<open>downsampleBuffer\<close> of \<^verbatim>\<open>utils/audio\<close>, missing from the files
  at hand.  The output has \<open>floor (inputLen * targetRate / sourceRate)\<close> samples, and
  sample \<open>i\<close> is interpolated at the fractional source index
  \<open>i * sourceRate / targetRate\<close>.
\<close>

definition downsampleBuffer :: "real list \<Rightarrow> real \<Rightarrow> real \<Rightarrow> real list" where
  "downsampleBuffer buffer sourceRate targetRate =
     map (\<lambda>i. interpolate buffer (real i * sourceRate / targetRate))
       [0 ..< nat \<lfloor>real (length buffer) * targetRate / sourceRate\<rfloor>]"

section \<open>Double precision arithmetic\<close>

text \<open>
  The numbers of the program are IEEE 754 binary64 values, and every arithmetic
  operation returns the exact result rounded to the nearest such value, ties to the
  even significand.  A finite value is represented by the real number it denotes.
\<close>

datatype double = Finite real | PosInf | NegInf | NaN

definition pow2 :: "int \<Rightarrow> real" where
  "pow2 e = (if 0 \<le> e then 2 ^ nat e else 1 / 2 ^ nat (- e))"

definition round_even :: "real \<Rightarrow> int" where
  "round_even y =
     (let f = \<lfloor>y\<rfloor>
      in if y - of_int f < 1 / 2 then f
         else if 1 / 2 < y - of_int f then f + 1
         else if even f then f else f + 1)"

text \<open>
  Rounding of a real number: 53 significant bits at the exponent of the number, which
  is at least \<open>-1022\<close> (below that the values are subnormal, spaced \<open>2 ^ -1074\<close> apart);
  a rounded magnitude of \<open>2 ^ 1024\<close> or more overflows to an infinity.
\<close>

definition round64 :: "real \<Rightarrow> double" where
  "round64 x =
     (if x = 0 then Finite 0
      else
        let e = max \<lfloor>log 2 \<bar>x\<bar>\<rfloor> (- 1022);
            u = pow2 (e - 52);
            r = of_int (round_even (x / u)) * u
        in if pow2 1024 \<le> \<bar>r\<bar> then (if 0 < r then PosInf else NegInf) else Finite r)"

text \<open>The product of two samples; a sample of a \<^verbatim>\<open>Float32Array\<close> converts exactly.\<close>

definition fmul :: "real \<Rightarrow> real \<Rightarrow> double" where
  "fmul x y = round64 (x * y)"

fun fadd :: "double \<Rightarrow> double \<Rightarrow> double" where
  "fadd (Finite a) (Finite b) = round64 (a + b)"
| "fadd NaN y = NaN"
| "fadd x NaN = NaN"
| "fadd PosInf NegInf = NaN"
| "fadd NegInf PosInf = NaN"
| "fadd PosInf y = PosInf"
| "fadd x PosInf = PosInf"
| "fadd NegInf y = NegInf"
| "fadd x NegInf = NegInf"

text \<open>Division by the length of an array, which is exact as a double.\<close>

fun fdiv_length :: "double \<Rightarrow> nat \<Rightarrow> double" where
  "fdiv_length (Finite a) n =
     (if n = 0 then (if a = 0 then NaN else if 0 < a then PosInf else NegInf)
      else round64 (a / real n))"
| "fdiv_length x n = x"

text \<open>\<^verbatim>\<open>Math.sqrt\<close>, correctly rounded as the square root of the hardware is.\<close>

fun fsqrt :: "double \<Rightarrow> double" where
  "fsqrt (Finite a) = (if a < 0 then NaN else round64 (sqrt a))"
| "fsqrt PosInf = PosInf"
| "fsqrt x = NaN"

text \<open>The comparison \<^verbatim>\<open>>\<close>, false whenever an operand is \<^verbatim>\<open>NaN\<close>.\<close>

fun fgt :: "double \<Rightarrow> double \<Rightarrow> bool" where
  "fgt (Finite a) (Finite b) = (b < a)"
| "fgt NaN y = False"
| "fgt x NaN = False"
| "fgt PosInf PosInf = False"
| "fgt PosInf y = True"
| "fgt x PosInf = False"
| "fgt NegInf y = False"
| "fgt x NegInf = True"

section \<open>Capture: voice activity\<close>

text \<open>
  The energy loop of \<^verbatim>\<open>onaudioprocess\<close>:
  \<^verbatim>\<open>let sum = 0; for (let i = 0; i < inputData.length; i++) sum += inputData[i] * inputData[i]\<close>.
  The frame lists the samples of the \<^verbatim>\<open>Float32Array\<close>.
\<close>

definition sum_squares :: "real list \<Rightarrow> double" where
  "sum_squares inputData = foldl (\<lambda>sum x. fadd sum (fmul x x)) (Finite 0) inputData"

text \<open>
  \<^verbatim>\<open>const rms = Math.sqrt(sum / inputData.length)\<close>; on an empty frame the quotient is
  \<^verbatim>\<open>NaN\<close>.
\<close>

definition rms :: "real list \<Rightarrow> double" where
  "rms inputData = fsqrt (fdiv_length (sum_squares inputData) (length inputData))"

text \<open>
  The handler; the literal \<^verbatim>\<open>0.02\<close> denotes the double nearest to that decimal.
\<close>

definition onaudioprocess_handler :: "real list \<Rightarrow> real \<Rightarrow> session \<Rightarrow> session" where
  "onaudioprocess_handler inputData sampleRate s =
     (if \<not> isConnected s then s
      else
        let s1 = (if fgt (rms inputData) (round64 (2 / 100))
                  then s\<lparr>lastUserSpeechTime := now s, isUserSpeaking := True,
                         isWaitingForResponse := False\<rparr>
                  else s\<lparr>isUserSpeaking := False\<rparr>);
            downsampled = downsampleBuffer inputData sampleRate 16000
        in if length downsampled > 0
           then s1\<lparr>trace := trace s1 @ [SendRealtimeInput downsampled]\<rparr>
           else s1)"

section \<open>Connection callbacks\<close>

datatype initOutcome =
    NoApiKey
  | CaptureFailed
  | ConnectFailed "nat list"
  | Ready "nat list" transport

text \<open>
  \<^verbatim>\<open>initSession\<close>, by how far it gets before an exception reaches its \<^verbatim>\<open>catch\<close>: the
  contexts are created first, then the capture stream and the processor node, then the
  connection.
\<close>

fun initSession :: "initOutcome \<Rightarrow> session \<Rightarrow> session" where
  "initSession NoApiKey s = s\<lparr>status := Error\<rparr>"
| "initSession CaptureFailed s =
     s\<lparr>audioContextRef := Some Running, inputAudioContextRef := Some Running, status := Error\<rparr>"
| "initSession (ConnectFailed tracks) s =
     s\<lparr>audioContextRef := Some Running, inputAudioContextRef := Some Running,
       streamRef := Some tracks, scriptProcessorRef := True, status := Error\<rparr>"
| "initSession (Ready tracks t) s =
     s\<lparr>audioContextRef := Some Running, inputAudioContextRef := Some Running,
       streamRef := Some tracks, scriptProcessorRef := True, sessionRef := Some t\<rparr>"

definition onopen :: "session \<Rightarrow> session" where
  "onopen s =
     (if \<not> isMounted s then s
      else s\<lparr>status := Connected, isConnected := True, onaudioprocess := True\<rparr>)"

text \<open>\<^verbatim>\<open>(call.args as any)?.reason || "Completed"\<close>: a missing or empty reason is falsy.\<close>

definition reason_or_completed :: "string option \<Rightarrow> string" where
  "reason_or_completed r =
     (case r of None \<Rightarrow> ''Completed'' | Some x \<Rightarrow> if x = [] then ''Completed'' else x)"

text \<open>\<^verbatim>\<open>message.serverContent?.modelTurn?.parts?.[0]\<close>.\<close>

definition first_part :: "liveServerMessage \<Rightarrow> part option" where
  "first_part m =
     (case serverContent m of
        None \<Rightarrow> None
      | Some c \<Rightarrow> (case modelTurn_parts c of None \<Rightarrow> None | Some [] \<Rightarrow> None | Some (p # ps) \<Rightarrow> Some p))"

definition message_text :: "liveServerMessage \<Rightarrow> string option" where
  "message_text m =
     (case first_part m of
        None \<Rightarrow> None
      | Some p \<Rightarrow> (case part_text p of None \<Rightarrow> None | Some t \<Rightarrow> if t = [] then None else Some t))"

definition message_inlineData :: "liveServerMessage \<Rightarrow> real option" where
  "message_inlineData m = (case first_part m of None \<Rightarrow> None | Some p \<Rightarrow> part_inlineData p)"

definition message_turnComplete :: "liveServerMessage \<Rightarrow> bool" where
  "message_turnComplete m = (case serverContent m of None \<Rightarrow> False | Some c \<Rightarrow> turnComplete c)"

definition onmessage_toolCall :: "liveServerMessage \<Rightarrow> session \<Rightarrow> session" where
  "onmessage_toolCall m s =
     (case toolCall m of
        None \<Rightarrow> s
      | Some calls \<Rightarrow>
          (case find (\<lambda>f. fc_name f = ''endInterview'') calls of
             None \<Rightarrow> s
           | Some call \<Rightarrow> handleTermination (reason_or_completed (fc_reason call)) s))"

definition onmessage_text :: "liveServerMessage \<Rightarrow> session \<Rightarrow> session" where
  "onmessage_text m s =
     (case message_text m of
        None \<Rightarrow> s
      | Some t \<Rightarrow>
          s\<lparr>transcriptLines := transcriptLines s @ [(AI, t)],
            fullTranscriptHistory := fullTranscriptHistory s @ [''AI: '' @ t],
            isAiSpeaking := True\<rparr>)"

definition onmessage_turnComplete :: "liveServerMessage \<Rightarrow> session \<Rightarrow> session" where
  "onmessage_turnComplete m s =
     (if message_turnComplete m
      then s\<lparr>isAiSpeaking := False, isWaitingForResponse := True\<rparr>
      else s)"

text \<open>
  The audio branch of \<^verbatim>\<open>onmessage\<close> in src/components/InterviewSession.tsx, from the
  point where \<^verbatim>\<open>decodeAudioData\<close> has returned a buffer of the given duration:
  \<^verbatim>\<open>src.start(nextAudioStartTimeRef.current); nextAudioStartTimeRef.current += buffer.duration\<close>.
  It runs as one step with the rest of the message.
\<close>

definition scheduleAudio :: "real \<Rightarrow> session \<Rightarrow> session" where
  "scheduleAudio duration s =
     s\<lparr>trace := trace s @ [StartSource (nextAudioStartTime s) duration],
       nextAudioStartTime := nextAudioStartTime s + duration,
       isAiSpeaking := True\<rparr>"

text \<open>
  The same branch in the variant src/unnamed/part_001, which reads the clock of the
  output context first:
  \<^verbatim>\<open>const startTime = Math.max(currentTime, nextAudioStartTimeRef.current);\<close>
  \<^verbatim>\<open>src.start(startTime); nextAudioStartTimeRef.current = startTime + buffer.duration\<close>.
\<close>

definition scheduleAudio_part_001 :: "real \<Rightarrow> real \<Rightarrow> session \<Rightarrow> session" where
  "scheduleAudio_part_001 currentTime duration s =
     (let startTime = max currentTime (nextAudioStartTime s)
      in s\<lparr>trace := trace s @ [StartSource startTime duration],
            nextAudioStartTime := startTime + duration,
            isAiSpeaking := True\<rparr>)"

definition onmessage_audio :: "liveServerMessage \<Rightarrow> session \<Rightarrow> session" where
  "onmessage_audio m s =
     (case message_inlineData m of None \<Rightarrow> s | Some duration \<Rightarrow> scheduleAudio duration s)"

definition onmessage :: "liveServerMessage \<Rightarrow> session \<Rightarrow> session" where
  "onmessage m s =
     (if \<not> isMounted s then s
      else onmessage_audio m (onmessage_turnComplete m (onmessage_text m (onmessage_toolCall m s))))"

text \<open>\<^verbatim>\<open>src.onended\<close>, with the clock of the output context at that moment.\<close>

definition onended :: "real \<Rightarrow> session \<Rightarrow> session" where
  "onended currentTime s =
     (if currentTime \<ge> nextAudioStartTime s then s\<lparr>isAiSpeaking := False\<rparr> else s)"

definition onerror :: "session \<Rightarrow> session" where
  "onerror s = s\<lparr>status := Error, trace := trace s @ [ConsoleError]\<rparr>"

definition onclose :: "session \<Rightarrow> session" where
  "onclose s = s\<lparr>status := Error\<rparr>"

section \<open>Proctoring: timer and tab switching\<close>

text \<open>The callback of \<^verbatim>\<open>timerInterval\<close>, with the updater given to \<^verbatim>\<open>setTimeLeft\<close> applied.\<close>

definition timerInterval :: "session \<Rightarrow> session" where
  "timerInterval s =
     (if timeLeft s \<le> 1
      then (handleTermination ''Time Limit Exceeded'' s)\<lparr>timeLeft := 0\<rparr>
      else s\<lparr>timeLeft := timeLeft s - 1\<rparr>)"

text \<open>The template \<^verbatim>\<open>`Warning: Tab switch detected (${tabSwitchCountRef.current}/3)`\<close>.\<close>

definition tabSwitchWarning :: "nat \<Rightarrow> string" where
  "tabSwitchWarning n = ''Warning: Tab switch detected ('' @ string_of_nat n @ ''/3)''"

definition handleVisibilityChange :: "bool \<Rightarrow> session \<Rightarrow> session" where
  "handleVisibilityChange hidden s =
     (if hidden
      then
        let s1 = s\<lparr>tabSwitchCount := tabSwitchCount s + 1\<rparr>;
            s2 = s1\<lparr>systemMessageLog := systemMessageLog s1 @ [tabSwitchWarning (tabSwitchCount s1)]\<rparr>
        in if tabSwitchCount s2 \<ge> 3
           then handleTermination ''Disqualified: Excessive Tab Switching'' s2
           else s2
      else s)"

section \<open>The component as a reactive system\<close>

text \<open>The body of the effect, and the cleanup it returns.\<close>

definition mount :: "session \<Rightarrow> session" where
  "mount s = s\<lparr>isMounted := True\<rparr>"

definition cleanup :: "session \<Rightarrow> session" where
  "cleanup s = disconnect (s\<lparr>isMounted := False\<rparr>)"

text \<open>One run of \<^verbatim>\<open>draw\<close>, with the id that \<^verbatim>\<open>requestAnimationFrame\<close> returns.\<close>

definition draw :: "nat \<Rightarrow> session \<Rightarrow> session" where
  "draw frameId s = (if \<not> isMounted s then s else s\<lparr>animationRef := frameId\<rparr>)"

text \<open>
  The timer queue: the oldest pending closure runs once its delay has elapsed.
\<close>

definition runTimeout :: "session \<Rightarrow> session" where
  "runTimeout s =
     (case pendingTimeouts s of
        [] \<Rightarrow> s
      | (due, reason) # rest \<Rightarrow>
          if due \<le> now s then shutdown reason (s\<lparr>pendingTimeouts := rest\<rparr>) else s)"

datatype event =
    Mount
  | InitSession initOutcome
  | Open
  | Message liveServerMessage
  | SourceEnded real
  | TransportError
  | TransportClose
  | AudioProcess "real list" real
  | Tick
  | VisibilityChange bool
  | EndButton
  | Draw nat
  | Elapse nat
  | TimeoutFired
  | Unmount

text \<open>
  The interval, the visibility listener and the button exist while the component is
  mounted; the capture callback runs while it is attached to the node.
\<close>

fun step :: "event \<Rightarrow> session \<Rightarrow> session" where
  "step Mount s = mount s"
| "step (InitSession outcome) s = initSession outcome s"
| "step Open s = onopen s"
| "step (Message m) s = onmessage m s"
| "step (SourceEnded currentTime) s = onended currentTime s"
| "step TransportError s = onerror s"
| "step TransportClose s = onclose s"
| "step (AudioProcess inputData sampleRate) s =
     (if onaudioprocess s then onaudioprocess_handler inputData sampleRate s else s)"
| "step Tick s = (if isMounted s then timerInterval s else s)"
| "step (VisibilityChange hidden) s = (if isMounted s then handleVisibilityChange hidden s else s)"
| "step EndButton s = (if isMounted s then handleTermination ''User ended session'' s else s)"
| "step (Draw frameId) s = draw frameId s"
| "step (Elapse dt) s = s\<lparr>now := now s + dt\<rparr>"
| "step TimeoutFired s = runTimeout s"
| "step Unmount s = (if isMounted s then cleanup s else s)"

definition run :: "event list \<Rightarrow> session \<Rightarrow> session" where
  "run evs s = foldl (\<lambda>s e. step e s) s evs"

section \<open>Notions used in the statements\<close>

text \<open>The reasons held by the termination closures, those already run first.\<close>

definition recordedReasons :: "session \<Rightarrow> string list" where
  "recordedReasons s = map snd (completed s) @ map snd (pendingTimeouts s)"

definition single_shot :: "session \<Rightarrow> bool" where
  "single_shot s = (length (recordedReasons s) = (if terminationTriggered s then 1 else 0))"

definition agent_entry :: "string \<Rightarrow> bool" where
  "agent_entry e = (take 4 e = ''AI: '')"

definition agent_only :: "session \<Rightarrow> bool" where
  "agent_only s =
     (list_all agent_entry (fullTranscriptHistory s) \<and>
      list_all (\<lambda>(sp, t). sp = AI) (transcriptLines s))"

text \<open>The transcript entry an event can give rise to: the text of an agent message.\<close>

fun entry_of_event :: "event \<Rightarrow> string list" where
  "entry_of_event (Message m) = (case message_text m of Some t \<Rightarrow> [''AI: '' @ t] | None \<Rightarrow> [])"
| "entry_of_event _ = []"


definition transport_failure :: "event \<Rightarrow> bool" where
  "transport_failure e = (e = TransportError \<or> e = TransportClose)"

text \<open>
  A connected session: mounted, capture stream with two tracks, transport open, the
  visualiser running.
\<close>

definition live_session :: session where
  "live_session = run [Mount, InitSession (Ready [0, 1] (Transport False)), Draw 7, Open] initial"

definition hello_message :: liveServerMessage where
  "hello_message = \<lparr>toolCall = None, serverContent = Some \<lparr>modelTurn_parts =
      Some [\<lparr>part_text = Some ''Hello'', part_inlineData = None\<rparr>], turnComplete = False\<rparr>\<rparr>"

definition endInterview_message :: liveServerMessage where
  "endInterview_message =
     \<lparr>toolCall = Some [\<lparr>fc_name = ''endInterview'', fc_reason = Some ''Completed''\<rparr>],
      serverContent = None\<rparr>"

text \<open>
  A short session: the agent greets, the user speaks into the microphone, then ends the
  interview, and the shutdown closure runs after its delay.
\<close>

definition hello_run :: "event list" where
  "hello_run = [Mount, InitSession (Ready [0, 1] (Transport False)), Open,
      Message hello_message, AudioProcess [3 / 100, 4 / 100, 0] 48000, EndButton,
      Elapse 2000, TimeoutFired]"

text \<open>The calls that one run of \<open>disconnect\<close> adds to the trace.\<close>

definition disconnect_effects :: "session \<Rightarrow> effect list" where
  "disconnect_effects s = drop (length (trace s)) (trace (disconnect s))"

text \<open>
  The position of a release call in the body of \<open>disconnect\<close>: processor node,
  transport, capture tracks, output context, input context, animation frame, playback
  sources.
\<close>

fun shutdown_rank :: "effect \<Rightarrow> nat" where
  "shutdown_rank DetachCaptureCallback = 0"
| "shutdown_rank DisconnectProcessor = 0"
| "shutdown_rank CloseTransport = 1"
| "shutdown_rank ConsoleError = 1"
| "shutdown_rank (StopTrack t) = 2"
| "shutdown_rank CloseOutputContext = 3"
| "shutdown_rank CloseInputContext = 4"
| "shutdown_rank (CancelAnimationFrame i) = 5"
| "shutdown_rank (StopSource src) = 6"
| "shutdown_rank (StartSource t d) = 7"
| "shutdown_rank (SendRealtimeInput xs) = 7"
| "shutdown_rank (OnComplete transcript reason) = 7"

text \<open>
  The order the specification gives: detach capture callback, close transport, stop
  playback, release capture device, cancel pending timers, release output device.
\<close>

fun spec_shutdown_rank :: "effect \<Rightarrow> nat" where
  "spec_shutdown_rank DetachCaptureCallback = 0"
| "spec_shutdown_rank DisconnectProcessor = 0"
| "spec_shutdown_rank CloseTransport = 1"
| "spec_shutdown_rank ConsoleError = 1"
| "spec_shutdown_rank (StopSource src) = 2"
| "spec_shutdown_rank (StopTrack t) = 3"
| "spec_shutdown_rank CloseInputContext = 3"
| "spec_shutdown_rank (CancelAnimationFrame i) = 4"
| "spec_shutdown_rank CloseOutputContext = 5"
| "spec_shutdown_rank (StartSource t d) = 6"
| "spec_shutdown_rank (SendRealtimeInput xs) = 6"
| "spec_shutdown_rank (OnComplete transcript reason) = 6"

text \<open>The same session with a transport whose \<^verbatim>\<open>close\<close> throws and two sources playing.\<close>

definition faulty_session :: session where
  "faulty_session =
     live_session\<lparr>sessionRef := Some (Transport True), sourcesRef := [Source True, Source False]\<rparr>"

text \<open>A connected session in which the agent has spoken and then called the tool.\<close>

definition ending_session :: session where
  "ending_session = run [Message hello_message, Message endInterview_message] live_session"

text \<open>An agent message carrying one second of audio.\<close>

definition audio_message :: liveServerMessage where
  "audio_message = \<lparr>toolCall = None, serverContent = Some \<lparr>modelTurn_parts =
      Some [\<lparr>part_text = None, part_inlineData = Some 1\<rparr>], turnComplete = False\<rparr>\<rparr>"

text \<open>
  Audio units, each given by the clock of the output context at its arrival and its
  duration, scheduled one after the other by the handler of src/unnamed/part_001.
\<close>

fun schedule_part_001 :: "(real \<times> real) list \<Rightarrow> session \<Rightarrow> session" where
  "schedule_part_001 [] s = s"
| "schedule_part_001 ((currentTime, duration) # units) s =
     schedule_part_001 units (scheduleAudio_part_001 currentTime duration s)"

text \<open>The start times handed to \<^verbatim>\<open>src.start\<close>, in the order of the calls.\<close>

fun start_times :: "effect list \<Rightarrow> real list" where
  "start_times [] = []"
| "start_times (StartSource t d # es) = t # start_times es"
| "start_times (e # es) = start_times es"

fun starts_from :: "real \<Rightarrow> (real \<times> real) list \<Rightarrow> real list" where
  "starts_from next [] = []"
| "starts_from next ((currentTime, duration) # units) =
     max currentTime next # starts_from (max currentTime next + duration) units"



text \<open>
  Every transcript passed to \<^verbatim>\<open>onComplete\<close> so far is the newline join of the first
  entries of the transcript history.
\<close>

definition handed_over :: "session \<Rightarrow> bool" where
  "handed_over s =
     (\<forall>(tr, r) \<in> set (completed s).
        \<exists>n \<le> length (fullTranscriptHistory s). tr = join_lines (take n (fullTranscriptHistory s)))"


section \<open>Auxiliary facts\<close>


lemma run_Nil: "run [] s = s" by (simp add: run_def)
lemma run_Cons: "run (e # evs) s = run evs (step e s)" by (simp add: run_def)
lemma run_snoc: "run (evs @ [e]) s = step e (run evs s)" by (simp add: run_def)

lemmas disconnect_defs = disconnect_def disconnect_sources_def disconnect_animation_def
  disconnect_inputAudioContext_def disconnect_audioContext_def disconnect_stream_def
  disconnect_session_def disconnect_scriptProcessor_def

lemma stop_sources_eq [simp]: "stop_sources srcs = map StopSource srcs"
  by (induction srcs) (simp_all split: sum.splits)

lemma disconnect_scriptProcessor_keeps [simp]:
  "status (disconnect_scriptProcessor s) = status s"
  "transcriptLines (disconnect_scriptProcessor s) = transcriptLines s"
  "isUserSpeaking (disconnect_scriptProcessor s) = isUserSpeaking s"
  "systemMessageLog (disconnect_scriptProcessor s) = systemMessageLog s"
  "timeLeft (disconnect_scriptProcessor s) = timeLeft s"
  "isMounted (disconnect_scriptProcessor s) = isMounted s"
  "audioContextRef (disconnect_scriptProcessor s) = audioContextRef s"
  "inputAudioContextRef (disconnect_scriptProcessor s) = inputAudioContextRef s"
  "sourcesRef (disconnect_scriptProcessor s) = sourcesRef s"
  "nextAudioStartTime (disconnect_scriptProcessor s) = nextAudioStartTime s"
  "sessionRef (disconnect_scriptProcessor s) = sessionRef s"
  "streamRef (disconnect_scriptProcessor s) = streamRef s"
  "animationRef (disconnect_scriptProcessor s) = animationRef s"
  "terminationTriggered (disconnect_scriptProcessor s) = terminationTriggered s"
  "isConnected (disconnect_scriptProcessor s) = isConnected s"
  "isAiSpeaking (disconnect_scriptProcessor s) = isAiSpeaking s"
  "lastUserSpeechTime (disconnect_scriptProcessor s) = lastUserSpeechTime s"
  "fullTranscriptHistory (disconnect_scriptProcessor s) = fullTranscriptHistory s"
  "isWaitingForResponse (disconnect_scriptProcessor s) = isWaitingForResponse s"
  "tabSwitchCount (disconnect_scriptProcessor s) = tabSwitchCount s"
  "now (disconnect_scriptProcessor s) = now s"
  "pendingTimeouts (disconnect_scriptProcessor s) = pendingTimeouts s"
  "completed (disconnect_scriptProcessor s) = completed s"
  by (simp_all add: disconnect_scriptProcessor_def split: option.splits sum.splits)

lemma disconnect_scriptProcessor_sets [simp]:
  "scriptProcessorRef (disconnect_scriptProcessor s) = False"
  "onaudioprocess (disconnect_scriptProcessor s) = (onaudioprocess s \<and> \<not> scriptProcessorRef s)"
  "trace (disconnect_scriptProcessor s) = trace s @
     (if scriptProcessorRef s then [DetachCaptureCallback, DisconnectProcessor] else [])"
  by (auto simp: disconnect_scriptProcessor_def close_transport_def split: option.splits sum.splits)

lemma disconnect_session_keeps [simp]:
  "status (disconnect_session s) = status s"
  "transcriptLines (disconnect_session s) = transcriptLines s"
  "isUserSpeaking (disconnect_session s) = isUserSpeaking s"
  "systemMessageLog (disconnect_session s) = systemMessageLog s"
  "timeLeft (disconnect_session s) = timeLeft s"
  "isMounted (disconnect_session s) = isMounted s"
  "audioContextRef (disconnect_session s) = audioContextRef s"
  "inputAudioContextRef (disconnect_session s) = inputAudioContextRef s"
  "scriptProcessorRef (disconnect_session s) = scriptProcessorRef s"
  "onaudioprocess (disconnect_session s) = onaudioprocess s"
  "sourcesRef (disconnect_session s) = sourcesRef s"
  "nextAudioStartTime (disconnect_session s) = nextAudioStartTime s"
  "streamRef (disconnect_session s) = streamRef s"
  "animationRef (disconnect_session s) = animationRef s"
  "terminationTriggered (disconnect_session s) = terminationTriggered s"
  "isConnected (disconnect_session s) = isConnected s"
  "isAiSpeaking (disconnect_session s) = isAiSpeaking s"
  "lastUserSpeechTime (disconnect_session s) = lastUserSpeechTime s"
  "fullTranscriptHistory (disconnect_session s) = fullTranscriptHistory s"
  "isWaitingForResponse (disconnect_session s) = isWaitingForResponse s"
  "tabSwitchCount (disconnect_session s) = tabSwitchCount s"
  "now (disconnect_session s) = now s"
  "pendingTimeouts (disconnect_session s) = pendingTimeouts s"
  "completed (disconnect_session s) = completed s"
  by (simp_all add: disconnect_session_def split: option.splits sum.splits)

lemma disconnect_session_sets [simp]:
  "sessionRef (disconnect_session s) = None"
  "trace (disconnect_session s) = trace s @
     (case sessionRef s of None \<Rightarrow> [] | Some t \<Rightarrow> if closeThrows t then [CloseTransport, ConsoleError] else [CloseTransport])"
  by (auto simp: disconnect_session_def close_transport_def split: option.splits sum.splits)

lemma disconnect_stream_keeps [simp]:
  "status (disconnect_stream s) = status s"
  "transcriptLines (disconnect_stream s) = transcriptLines s"
  "isUserSpeaking (disconnect_stream s) = isUserSpeaking s"
  "systemMessageLog (disconnect_stream s) = systemMessageLog s"
  "timeLeft (disconnect_stream s) = timeLeft s"
  "isMounted (disconnect_stream s) = isMounted s"
  "audioContextRef (disconnect_stream s) = audioContextRef s"
  "inputAudioContextRef (disconnect_stream s) = inputAudioContextRef s"
  "scriptProcessorRef (disconnect_stream s) = scriptProcessorRef s"
  "onaudioprocess (disconnect_stream s) = onaudioprocess s"
  "sourcesRef (disconnect_stream s) = sourcesRef s"
  "nextAudioStartTime (disconnect_stream s) = nextAudioStartTime s"
  "sessionRef (disconnect_stream s) = sessionRef s"
  "animationRef (disconnect_stream s) = animationRef s"
  "terminationTriggered (disconnect_stream s) = terminationTriggered s"
  "isConnected (disconnect_stream s) = isConnected s"
  "isAiSpeaking (disconnect_stream s) = isAiSpeaking s"
  "lastUserSpeechTime (disconnect_stream s) = lastUserSpeechTime s"
  "fullTranscriptHistory (disconnect_stream s) = fullTranscriptHistory s"
  "isWaitingForResponse (disconnect_stream s) = isWaitingForResponse s"
  "tabSwitchCount (disconnect_stream s) = tabSwitchCount s"
  "now (disconnect_stream s) = now s"
  "pendingTimeouts (disconnect_stream s) = pendingTimeouts s"
  "completed (disconnect_stream s) = completed s"
  by (simp_all add: disconnect_stream_def split: option.splits sum.splits)

lemma disconnect_stream_sets [simp]:
  "streamRef (disconnect_stream s) = None"
  "trace (disconnect_stream s) = trace s @
     (case streamRef s of None \<Rightarrow> [] | Some tracks \<Rightarrow> map StopTrack tracks)"
  by (auto simp: disconnect_stream_def close_transport_def split: option.splits sum.splits)

lemma disconnect_audioContext_keeps [simp]:
  "status (disconnect_audioContext s) = status s"
  "transcriptLines (disconnect_audioContext s) = transcriptLines s"
  "isUserSpeaking (disconnect_audioContext s) = isUserSpeaking s"
  "systemMessageLog (disconnect_audioContext s) = systemMessageLog s"
  "timeLeft (disconnect_audioContext s) = timeLeft s"
  "isMounted (disconnect_audioContext s) = isMounted s"
  "inputAudioContextRef (disconnect_audioContext s) = inputAudioContextRef s"
  "scriptProcessorRef (disconnect_audioContext s) = scriptProcessorRef s"
  "onaudioprocess (disconnect_audioContext s) = onaudioprocess s"
  "sourcesRef (disconnect_audioContext s) = sourcesRef s"
  "nextAudioStartTime (disconnect_audioContext s) = nextAudioStartTime s"
  "sessionRef (disconnect_audioContext s) = sessionRef s"
  "streamRef (disconnect_audioContext s) = streamRef s"
  "animationRef (disconnect_audioContext s) = animationRef s"
  "terminationTriggered (disconnect_audioContext s) = terminationTriggered s"
  "isConnected (disconnect_audioContext s) = isConnected s"
  "isAiSpeaking (disconnect_audioContext s) = isAiSpeaking s"
  "lastUserSpeechTime (disconnect_audioContext s) = lastUserSpeechTime s"
  "fullTranscriptHistory (disconnect_audioContext s) = fullTranscriptHistory s"
  "isWaitingForResponse (disconnect_audioContext s) = isWaitingForResponse s"
  "tabSwitchCount (disconnect_audioContext s) = tabSwitchCount s"
  "now (disconnect_audioContext s) = now s"
  "pendingTimeouts (disconnect_audioContext s) = pendingTimeouts s"
  "completed (disconnect_audioContext s) = completed s"
  by (simp_all add: disconnect_audioContext_def split: option.splits sum.splits)

lemma disconnect_audioContext_sets [simp]:
  "audioContextRef (disconnect_audioContext s) = map_option (\<lambda>st. Closed) (audioContextRef s)"
  "trace (disconnect_audioContext s) = trace s @
     (if audioContextRef s \<in> {None, Some Closed} then [] else [CloseOutputContext])"
  by (auto simp: disconnect_audioContext_def close_transport_def split: option.splits sum.splits)

lemma disconnect_inputAudioContext_keeps [simp]:
  "status (disconnect_inputAudioContext s) = status s"
  "transcriptLines (disconnect_inputAudioContext s) = transcriptLines s"
  "isUserSpeaking (disconnect_inputAudioContext s) = isUserSpeaking s"
  "systemMessageLog (disconnect_inputAudioContext s) = systemMessageLog s"
  "timeLeft (disconnect_inputAudioContext s) = timeLeft s"
  "isMounted (disconnect_inputAudioContext s) = isMounted s"
  "audioContextRef (disconnect_inputAudioContext s) = audioContextRef s"
  "scriptProcessorRef (disconnect_inputAudioContext s) = scriptProcessorRef s"
  "onaudioprocess (disconnect_inputAudioContext s) = onaudioprocess s"
  "sourcesRef (disconnect_inputAudioContext s) = sourcesRef s"
  "nextAudioStartTime (disconnect_inputAudioContext s) = nextAudioStartTime s"
  "sessionRef (disconnect_inputAudioContext s) = sessionRef s"
  "streamRef (disconnect_inputAudioContext s) = streamRef s"
  "animationRef (disconnect_inputAudioContext s) = animationRef s"
  "terminationTriggered (disconnect_inputAudioContext s) = terminationTriggered s"
  "isConnected (disconnect_inputAudioContext s) = isConnected s"
  "isAiSpeaking (disconnect_inputAudioContext s) = isAiSpeaking s"
  "lastUserSpeechTime (disconnect_inputAudioContext s) = lastUserSpeechTime s"
  "fullTranscriptHistory (disconnect_inputAudioContext s) = fullTranscriptHistory s"
  "isWaitingForResponse (disconnect_inputAudioContext s) = isWaitingForResponse s"
  "tabSwitchCount (disconnect_inputAudioContext s) = tabSwitchCount s"
  "now (disconnect_inputAudioContext s) = now s"
  "pendingTimeouts (disconnect_inputAudioContext s) = pendingTimeouts s"
  "completed (disconnect_inputAudioContext s) = completed s"
  by (simp_all add: disconnect_inputAudioContext_def split: option.splits sum.splits)

lemma disconnect_inputAudioContext_sets [simp]:
  "inputAudioContextRef (disconnect_inputAudioContext s) = map_option (\<lambda>st. Closed) (inputAudioContextRef s)"
  "trace (disconnect_inputAudioContext s) = trace s @
     (if inputAudioContextRef s \<in> {None, Some Closed} then [] else [CloseInputContext])"
  by (auto simp: disconnect_inputAudioContext_def close_transport_def
      split: option.splits sum.splits)

lemma disconnect_animation_keeps [simp]:
  "status (disconnect_animation s) = status s"
  "transcriptLines (disconnect_animation s) = transcriptLines s"
  "isUserSpeaking (disconnect_animation s) = isUserSpeaking s"
  "systemMessageLog (disconnect_animation s) = systemMessageLog s"
  "timeLeft (disconnect_animation s) = timeLeft s"
  "isMounted (disconnect_animation s) = isMounted s"
  "audioContextRef (disconnect_animation s) = audioContextRef s"
  "inputAudioContextRef (disconnect_animation s) = inputAudioContextRef s"
  "scriptProcessorRef (disconnect_animation s) = scriptProcessorRef s"
  "onaudioprocess (disconnect_animation s) = onaudioprocess s"
  "sourcesRef (disconnect_animation s) = sourcesRef s"
  "nextAudioStartTime (disconnect_animation s) = nextAudioStartTime s"
  "sessionRef (disconnect_animation s) = sessionRef s"
  "streamRef (disconnect_animation s) = streamRef s"
  "animationRef (disconnect_animation s) = animationRef s"
  "terminationTriggered (disconnect_animation s) = terminationTriggered s"
  "isConnected (disconnect_animation s) = isConnected s"
  "isAiSpeaking (disconnect_animation s) = isAiSpeaking s"
  "lastUserSpeechTime (disconnect_animation s) = lastUserSpeechTime s"
  "fullTranscriptHistory (disconnect_animation s) = fullTranscriptHistory s"
  "isWaitingForResponse (disconnect_animation s) = isWaitingForResponse s"
  "tabSwitchCount (disconnect_animation s) = tabSwitchCount s"
  "now (disconnect_animation s) = now s"
  "pendingTimeouts (disconnect_animation s) = pendingTimeouts s"
  "completed (disconnect_animation s) = completed s"
  by (simp_all add: disconnect_animation_def split: option.splits sum.splits)

lemma disconnect_animation_sets [simp]:
  "trace (disconnect_animation s) = trace s @
     (if animationRef s \<noteq> 0 then [CancelAnimationFrame (animationRef s)] else [])"
  by (auto simp: disconnect_animation_def close_transport_def split: option.splits sum.splits)

lemma disconnect_sources_keeps [simp]:
  "status (disconnect_sources s) = status s"
  "transcriptLines (disconnect_sources s) = transcriptLines s"
  "isUserSpeaking (disconnect_sources s) = isUserSpeaking s"
  "systemMessageLog (disconnect_sources s) = systemMessageLog s"
  "timeLeft (disconnect_sources s) = timeLeft s"
  "isMounted (disconnect_sources s) = isMounted s"
  "audioContextRef (disconnect_sources s) = audioContextRef s"
  "inputAudioContextRef (disconnect_sources s) = inputAudioContextRef s"
  "scriptProcessorRef (disconnect_sources s) = scriptProcessorRef s"
  "onaudioprocess (disconnect_sources s) = onaudioprocess s"
  "nextAudioStartTime (disconnect_sources s) = nextAudioStartTime s"
  "sessionRef (disconnect_sources s) = sessionRef s"
  "streamRef (disconnect_sources s) = streamRef s"
  "animationRef (disconnect_sources s) = animationRef s"
  "terminationTriggered (disconnect_sources s) = terminationTriggered s"
  "isConnected (disconnect_sources s) = isConnected s"
  "isAiSpeaking (disconnect_sources s) = isAiSpeaking s"
  "lastUserSpeechTime (disconnect_sources s) = lastUserSpeechTime s"
  "fullTranscriptHistory (disconnect_sources s) = fullTranscriptHistory s"
  "isWaitingForResponse (disconnect_sources s) = isWaitingForResponse s"
  "tabSwitchCount (disconnect_sources s) = tabSwitchCount s"
  "now (disconnect_sources s) = now s"
  "pendingTimeouts (disconnect_sources s) = pendingTimeouts s"
  "completed (disconnect_sources s) = completed s"
  by (simp_all add: disconnect_sources_def split: option.splits sum.splits)

lemma disconnect_sources_sets [simp]:
  "sourcesRef (disconnect_sources s) = []"
  "trace (disconnect_sources s) = trace s @ map StopSource (sourcesRef s)"
  by (auto simp: disconnect_sources_def close_transport_def split: option.splits sum.splits)

lemma disconnect_keeps [simp]:
  "status (disconnect s) = status s"
  "transcriptLines (disconnect s) = transcriptLines s"
  "isUserSpeaking (disconnect s) = isUserSpeaking s"
  "systemMessageLog (disconnect s) = systemMessageLog s"
  "timeLeft (disconnect s) = timeLeft s"
  "isMounted (disconnect s) = isMounted s"
  "nextAudioStartTime (disconnect s) = nextAudioStartTime s"
  "animationRef (disconnect s) = animationRef s"
  "terminationTriggered (disconnect s) = terminationTriggered s"
  "isAiSpeaking (disconnect s) = isAiSpeaking s"
  "lastUserSpeechTime (disconnect s) = lastUserSpeechTime s"
  "fullTranscriptHistory (disconnect s) = fullTranscriptHistory s"
  "isWaitingForResponse (disconnect s) = isWaitingForResponse s"
  "tabSwitchCount (disconnect s) = tabSwitchCount s"
  "now (disconnect s) = now s"
  "pendingTimeouts (disconnect s) = pendingTimeouts s"
  "completed (disconnect s) = completed s"
  by (simp_all add: disconnect_def)

lemma disconnect_sets [simp]:
  "scriptProcessorRef (disconnect s) = False"
  "onaudioprocess (disconnect s) = (onaudioprocess s \<and> \<not> scriptProcessorRef s)"
  "sessionRef (disconnect s) = None"
  "streamRef (disconnect s) = None"
  "audioContextRef (disconnect s) = map_option (\<lambda>st. Closed) (audioContextRef s)"
  "inputAudioContextRef (disconnect s) = map_option (\<lambda>st. Closed) (inputAudioContextRef s)"
  "sourcesRef (disconnect s) = []"
  "isConnected (disconnect s) = False"
  by (simp_all add: disconnect_def)

lemma disconnect_trace:
  "trace (disconnect s) = trace s @
     (if scriptProcessorRef s then [DetachCaptureCallback, DisconnectProcessor] else []) @
     (case sessionRef s of None \<Rightarrow> [] | Some t \<Rightarrow> if closeThrows t then [CloseTransport, ConsoleError] else [CloseTransport]) @
     (case streamRef s of None \<Rightarrow> [] | Some tracks \<Rightarrow> map StopTrack tracks) @
     (if audioContextRef s \<in> {None, Some Closed} then [] else [CloseOutputContext]) @
     (if inputAudioContextRef s \<in> {None, Some Closed} then [] else [CloseInputContext]) @
     (if animationRef s \<noteq> 0 then [CancelAnimationFrame (animationRef s)] else []) @
     map StopSource (sourcesRef s)"
  by (simp add: disconnect_def)

lemma handleTermination_triggered: "terminationTriggered s \<Longrightarrow> handleTermination r s = s"
  by (simp add: handleTermination_def)

lemma handleTermination_live:
  "\<not> terminationTriggered s \<Longrightarrow>
     handleTermination r s = s\<lparr>terminationTriggered := True,
             systemMessageLog := systemMessageLog s @ [''Ending: '' @ r],
             pendingTimeouts := pendingTimeouts s @ [(now s + 2000, r)]\<rparr>"
  by (simp add: handleTermination_def)

lemma handleTermination_fields [simp]:
  "terminationTriggered (handleTermination r s) = True"
  "pendingTimeouts (handleTermination r s) =
     (if terminationTriggered s then pendingTimeouts s else pendingTimeouts s @ [(now s + 2000, r)])"
  "completed (handleTermination r s) = completed s"
  "fullTranscriptHistory (handleTermination r s) = fullTranscriptHistory s"
  "transcriptLines (handleTermination r s) = transcriptLines s"
  "isMounted (handleTermination r s) = isMounted s"
  "now (handleTermination r s) = now s"
  "timeLeft (handleTermination r s) = timeLeft s"
  "tabSwitchCount (handleTermination r s) = tabSwitchCount s"
  "trace (handleTermination r s) = trace s"
  "status (handleTermination r s) = status s"
  by (simp_all add: handleTermination_def)

lemma onmessage_parts_fields [simp]:
  "terminationTriggered (onmessage_text m s) = terminationTriggered s"
  "pendingTimeouts (onmessage_text m s) = pendingTimeouts s"
  "completed (onmessage_text m s) = completed s"
  "terminationTriggered (onmessage_turnComplete m s) = terminationTriggered s"
  "pendingTimeouts (onmessage_turnComplete m s) = pendingTimeouts s"
  "completed (onmessage_turnComplete m s) = completed s"
  "terminationTriggered (onmessage_audio m s) = terminationTriggered s"
  "pendingTimeouts (onmessage_audio m s) = pendingTimeouts s"
  "completed (onmessage_audio m s) = completed s"
  by (simp_all add: onmessage_text_def onmessage_turnComplete_def onmessage_audio_def
        scheduleAudio_def split: option.splits)

lemma onaudioprocess_handler_keeps [simp]:
  "status (onaudioprocess_handler f r s) = status s"
  "transcriptLines (onaudioprocess_handler f r s) = transcriptLines s"
  "systemMessageLog (onaudioprocess_handler f r s) = systemMessageLog s"
  "timeLeft (onaudioprocess_handler f r s) = timeLeft s"
  "isMounted (onaudioprocess_handler f r s) = isMounted s"
  "audioContextRef (onaudioprocess_handler f r s) = audioContextRef s"
  "inputAudioContextRef (onaudioprocess_handler f r s) = inputAudioContextRef s"
  "scriptProcessorRef (onaudioprocess_handler f r s) = scriptProcessorRef s"
  "onaudioprocess (onaudioprocess_handler f r s) = onaudioprocess s"
  "sourcesRef (onaudioprocess_handler f r s) = sourcesRef s"
  "nextAudioStartTime (onaudioprocess_handler f r s) = nextAudioStartTime s"
  "sessionRef (onaudioprocess_handler f r s) = sessionRef s"
  "streamRef (onaudioprocess_handler f r s) = streamRef s"
  "animationRef (onaudioprocess_handler f r s) = animationRef s"
  "terminationTriggered (onaudioprocess_handler f r s) = terminationTriggered s"
  "isConnected (onaudioprocess_handler f r s) = isConnected s"
  "isAiSpeaking (onaudioprocess_handler f r s) = isAiSpeaking s"
  "fullTranscriptHistory (onaudioprocess_handler f r s) = fullTranscriptHistory s"
  "tabSwitchCount (onaudioprocess_handler f r s) = tabSwitchCount s"
  "now (onaudioprocess_handler f r s) = now s"
  "pendingTimeouts (onaudioprocess_handler f r s) = pendingTimeouts s"
  "completed (onaudioprocess_handler f r s) = completed s"
  by (simp_all add: onaudioprocess_handler_def Let_def)

lemma onaudioprocess_handler_trace:
  "trace (onaudioprocess_handler f r s) =
     (if isConnected s \<and> downsampleBuffer f r 16000 \<noteq> []
      then trace s @ [SendRealtimeInput (downsampleBuffer f r 16000)] else trace s)"
  by (simp add: onaudioprocess_handler_def Let_def)

lemma onopen_keeps [simp]:
  "pendingTimeouts (onopen s) = pendingTimeouts s"
  "completed (onopen s) = completed s"
  "terminationTriggered (onopen s) = terminationTriggered s"
  "fullTranscriptHistory (onopen s) = fullTranscriptHistory s"
  "transcriptLines (onopen s) = transcriptLines s"
  by (simp_all add: onopen_def)

lemma onended_keeps [simp]:
  "pendingTimeouts (onended c s) = pendingTimeouts s"
  "completed (onended c s) = completed s"
  "terminationTriggered (onended c s) = terminationTriggered s"
  "fullTranscriptHistory (onended c s) = fullTranscriptHistory s"
  "transcriptLines (onended c s) = transcriptLines s"
  by (simp_all add: onended_def)

lemma onerror_keeps [simp]:
  "pendingTimeouts (onerror s) = pendingTimeouts s"
  "completed (onerror s) = completed s"
  "terminationTriggered (onerror s) = terminationTriggered s"
  "fullTranscriptHistory (onerror s) = fullTranscriptHistory s"
  "transcriptLines (onerror s) = transcriptLines s"
  by (simp_all add: onerror_def)

lemma onclose_keeps [simp]:
  "pendingTimeouts (onclose s) = pendingTimeouts s"
  "completed (onclose s) = completed s"
  "terminationTriggered (onclose s) = terminationTriggered s"
  "fullTranscriptHistory (onclose s) = fullTranscriptHistory s"
  "transcriptLines (onclose s) = transcriptLines s"
  by (simp_all add: onclose_def)

lemma draw_keeps [simp]:
  "pendingTimeouts (draw i s) = pendingTimeouts s"
  "completed (draw i s) = completed s"
  "terminationTriggered (draw i s) = terminationTriggered s"
  "fullTranscriptHistory (draw i s) = fullTranscriptHistory s"
  "transcriptLines (draw i s) = transcriptLines s"
  by (simp_all add: draw_def)

lemma mount_keeps [simp]:
  "pendingTimeouts (mount s) = pendingTimeouts s"
  "completed (mount s) = completed s"
  "terminationTriggered (mount s) = terminationTriggered s"
  "fullTranscriptHistory (mount s) = fullTranscriptHistory s"
  "transcriptLines (mount s) = transcriptLines s"
  by (simp_all add: mount_def)

lemma initSession_keeps [simp]:
  "pendingTimeouts (initSession outcome s) = pendingTimeouts s"
  "completed (initSession outcome s) = completed s"
  "terminationTriggered (initSession outcome s) = terminationTriggered s"
  "fullTranscriptHistory (initSession outcome s) = fullTranscriptHistory s"
  "transcriptLines (initSession outcome s) = transcriptLines s"
  by (cases outcome; simp)+

lemma single_shot_handleTermination: "single_shot s \<Longrightarrow> single_shot (handleTermination r s)"
  by (simp add: single_shot_def recordedReasons_def)

lemma onmessage_toolCall_cases:
  "onmessage_toolCall m s = s \<or> (\<exists>r. onmessage_toolCall m s = handleTermination r s)"
  by (auto simp: onmessage_toolCall_def split: option.splits)

lemma single_shot_onmessage: "single_shot s \<Longrightarrow> single_shot (onmessage m s)"
  using onmessage_toolCall_cases[of m s] single_shot_handleTermination[of s]
  by (auto simp: onmessage_def single_shot_def recordedReasons_def)

lemma single_shot_runTimeout: "single_shot s \<Longrightarrow> single_shot (runTimeout s)"
  by (auto simp: runTimeout_def shutdown_def Let_def single_shot_def recordedReasons_def
      split: list.splits if_splits)

lemma single_shot_step: "single_shot s \<Longrightarrow> single_shot (step e s)"
  by (cases e)
    (simp_all add: single_shot_onmessage single_shot_runTimeout single_shot_handleTermination,
     auto simp: single_shot_def recordedReasons_def timerInterval_def
       handleVisibilityChange_def Let_def cleanup_def)

lemma single_shot_run: "single_shot s \<Longrightarrow> single_shot (run evs s)"
  by (induction evs arbitrary: s) (simp_all add: run_Nil run_Cons single_shot_step)

lemma recorded_frozen_onmessage:
  "terminationTriggered s \<Longrightarrow>
     terminationTriggered (onmessage m s) \<and> recordedReasons (onmessage m s) = recordedReasons s"
  using onmessage_toolCall_cases[of m s]
  by (auto simp: onmessage_def recordedReasons_def)

lemma recorded_frozen_runTimeout:
  "terminationTriggered s \<Longrightarrow>
     terminationTriggered (runTimeout s) \<and> recordedReasons (runTimeout s) = recordedReasons s"
  by (auto simp: runTimeout_def shutdown_def Let_def recordedReasons_def split: list.splits)

lemma recorded_frozen_step:
  "terminationTriggered s \<Longrightarrow>
     terminationTriggered (step e s) \<and> recordedReasons (step e s) = recordedReasons s"
  by (cases e)
    (simp_all add: recorded_frozen_onmessage recorded_frozen_runTimeout,
     auto simp: recordedReasons_def timerInterval_def
       handleVisibilityChange_def Let_def cleanup_def)

lemma recorded_frozen_run:
  "terminationTriggered s \<Longrightarrow>
     terminationTriggered (run evs s) \<and> recordedReasons (run evs s) = recordedReasons s"
proof (induction evs arbitrary: s)
  case Nil then show ?case by (simp add: run_Nil)
next
  case (Cons e evs)
  from recorded_frozen_step[OF Cons.prems, of e] Cons.IH[of "step e s"]
  show ?case by (simp add: run_Cons)
qed

lemma agent_only_handleTermination: "agent_only s \<Longrightarrow> agent_only (handleTermination r s)"
  by (simp add: agent_only_def)

lemma agent_only_onmessage: "agent_only s \<Longrightarrow> agent_only (onmessage m s)"
  using onmessage_toolCall_cases[of m s]
  by (auto simp: onmessage_def agent_only_def onmessage_text_def onmessage_turnComplete_def
      onmessage_audio_def scheduleAudio_def agent_entry_def split: option.splits)

lemma agent_only_shutdown: "agent_only s \<Longrightarrow> agent_only (shutdown r s)"
  by (auto simp: shutdown_def Let_def agent_only_def)

lemma agent_only_runTimeout: "agent_only s \<Longrightarrow> agent_only (runTimeout s)"
  using agent_only_shutdown
  by (auto simp: runTimeout_def split: list.splits) (simp add: agent_only_def)

lemma agent_only_step: "agent_only s \<Longrightarrow> agent_only (step e s)"
  by (cases e)
    (simp_all add: agent_only_onmessage agent_only_runTimeout agent_only_handleTermination,
     auto simp: agent_only_def timerInterval_def handleVisibilityChange_def Let_def cleanup_def)

lemma agent_only_run: "agent_only s \<Longrightarrow> agent_only (run evs s)"
  by (induction evs arbitrary: s) (simp_all add: run_Nil run_Cons agent_only_step)

lemma agent_only_initial: "agent_only initial"
  by (simp add: agent_only_def initial_def)

lemma history_onmessage:
  "fullTranscriptHistory (onmessage m s) =
     fullTranscriptHistory s @
       (if isMounted s then (case message_text m of Some t \<Rightarrow> [''AI: '' @ t] | None \<Rightarrow> []) else [])"
  using onmessage_toolCall_cases[of m s]
  by (auto simp: onmessage_def onmessage_text_def onmessage_turnComplete_def
      onmessage_audio_def scheduleAudio_def split: option.splits)

lemma history_runTimeout [simp]: "fullTranscriptHistory (runTimeout s) = fullTranscriptHistory s"
  by (simp add: runTimeout_def shutdown_def Let_def split: list.splits)

lemma history_step:
  "fullTranscriptHistory (step e s) =
     fullTranscriptHistory s @
       (if isMounted s then entry_of_event e else [])"
  by (cases e)
    (simp_all add: history_onmessage timerInterval_def handleVisibilityChange_def
       cleanup_def Let_def)

lemma history_run:
  "set (fullTranscriptHistory (run evs s)) \<subseteq>
     set (fullTranscriptHistory s) \<union> set (concat (map entry_of_event evs))"
proof (induction evs arbitrary: s)
  case Nil then show ?case by (simp add: run_Nil)
next
  case (Cons e evs)
  have "set (fullTranscriptHistory (step e s)) \<subseteq> set (fullTranscriptHistory s) \<union> set (entry_of_event e)"
    by (auto simp: history_step)
  with Cons.IH[of "step e s"] show ?case
    by (auto simp: run_Cons)
qed

lemmas handler_defs = run_def mount_def initial_def onopen_def draw_def onmessage_def
  onmessage_toolCall_def onmessage_text_def onmessage_turnComplete_def onmessage_audio_def
  message_text_def message_inlineData_def message_turnComplete_def first_part_def
  reason_or_completed_def handleTermination_def runTimeout_def shutdown_def
  timerInterval_def handleVisibilityChange_def onerror_def onclose_def cleanup_def

lemma live_session_eq:
  "live_session = initial\<lparr>isMounted := True, audioContextRef := Some Running,
     inputAudioContextRef := Some Running, streamRef := Some [0, 1], scriptProcessorRef := True,
     sessionRef := Some (Transport False), animationRef := 7, status := Connected,
     isConnected := True, onaudioprocess := True\<rparr>"
  by (simp add: live_session_def handler_defs)


lemma take8_warning [simp]: "take 8 (tabSwitchWarning n) = ''Warning:''"
  by (simp add: tabSwitchWarning_def)

lemma disconnect_effects_eq:
  "disconnect_effects s =
     (if scriptProcessorRef s then [DetachCaptureCallback, DisconnectProcessor] else []) @
     (case sessionRef s of None \<Rightarrow> []
      | Some t \<Rightarrow> if closeThrows t then [CloseTransport, ConsoleError] else [CloseTransport]) @
     (case streamRef s of None \<Rightarrow> [] | Some tracks \<Rightarrow> map StopTrack tracks) @
     (if audioContextRef s \<in> {None, Some Closed} then [] else [CloseOutputContext]) @
     (if inputAudioContextRef s \<in> {None, Some Closed} then [] else [CloseInputContext]) @
     (if animationRef s \<noteq> 0 then [CancelAnimationFrame (animationRef s)] else []) @
     map StopSource (sourcesRef s)"
  by (simp add: disconnect_effects_def disconnect_trace)

lemma disconnect_trace_effects: "trace (disconnect s) = trace s @ disconnect_effects s"
  by (simp add: disconnect_effects_eq disconnect_trace)

lemma disconnect_effects_cong:
  "scriptProcessorRef s = scriptProcessorRef s' \<Longrightarrow> sessionRef s = sessionRef s' \<Longrightarrow>
   streamRef s = streamRef s' \<Longrightarrow> audioContextRef s = audioContextRef s' \<Longrightarrow>
   inputAudioContextRef s = inputAudioContextRef s' \<Longrightarrow> animationRef s = animationRef s' \<Longrightarrow>
   sourcesRef s = sourcesRef s' \<Longrightarrow> disconnect_effects s = disconnect_effects s'"
  by (simp add: disconnect_effects_eq)

lemma sorted_disconnect_effects: "sorted (map shutdown_rank (disconnect_effects s))"
proof -
  have tracks: "map shutdown_rank (map StopTrack ts) = replicate (length ts) 2" for ts
    by (induction ts) simp_all
  have srcs: "map shutdown_rank (map StopSource ss) = replicate (length ss) 6" for ss
    by (induction ss) simp_all
  show ?thesis
    unfolding disconnect_effects_eq map_append sorted_append
    by (auto simp: tracks srcs simp del: map_map split: option.splits)
qed

lemma faulty_session_eq:
  "faulty_session = initial\<lparr>isMounted := True, audioContextRef := Some Running,
     inputAudioContextRef := Some Running, streamRef := Some [0, 1], scriptProcessorRef := True,
     sessionRef := Some (Transport True), animationRef := 7, status := Connected,
     isConnected := True, onaudioprocess := True,
     sourcesRef := [Source True, Source False]\<rparr>"
  by (simp add: faulty_session_def live_session_eq)











lemma onmessage_toolCall_completed [simp]:
  "completed (onmessage_toolCall m s) = completed s"
  using onmessage_toolCall_cases[of m s] by auto

lemma completed_step: "e \<noteq> TimeoutFired \<Longrightarrow> completed (step e s) = completed s"
  by (cases e)
    (auto simp: onmessage_def timerInterval_def handleVisibilityChange_def Let_def cleanup_def)

lemma runTimeout_completed:
  "completed (runTimeout s) = completed s \<or>
   (\<exists>r. completed (runTimeout s) = completed s @ [(join_lines (fullTranscriptHistory s), r)])"
  by (auto simp: runTimeout_def shutdown_def Let_def split: list.splits)

lemma drained_step:
  "terminationTriggered s \<Longrightarrow> pendingTimeouts s = [] \<Longrightarrow>
     terminationTriggered (step e s) \<and> pendingTimeouts (step e s) = [] \<and>
     completed (step e s) = completed s"
proof (cases "e = TimeoutFired")
  case True
  then show "pendingTimeouts s = [] \<Longrightarrow> terminationTriggered s \<Longrightarrow> ?thesis"
    by (simp add: runTimeout_def)
next
  case False
  assume t: "terminationTriggered s" and p: "pendingTimeouts s = []"
  from recorded_frozen_step[OF t, of e] completed_step[OF False, of s] p
  show ?thesis by (simp add: recordedReasons_def)
qed

lemma drained_run:
  "terminationTriggered s \<Longrightarrow> pendingTimeouts s = [] \<Longrightarrow>
     terminationTriggered (run evs s) \<and> pendingTimeouts (run evs s) = [] \<and>
     completed (run evs s) = completed s"
proof (induction evs arbitrary: s)
  case Nil
  then show ?case by (simp add: run_Nil)
next
  case (Cons e evs)
  from drained_step[OF Cons.prems, of e] Cons.IH[of "step e s"]
  show ?case by (simp add: run_Cons)
qed

lemma handed_over_step: "handed_over s \<Longrightarrow> handed_over (step e s)"
proof -
  assume inv: "handed_over s"
  obtain ext where h: "fullTranscriptHistory (step e s) = fullTranscriptHistory s @ ext"
    using history_step[of e s] by simp
  have old: "\<exists>n \<le> length (fullTranscriptHistory (step e s)).
      tr = join_lines (take n (fullTranscriptHistory (step e s)))"
    if "(tr, r) \<in> set (completed s)" for tr r
  proof -
    from inv that obtain n where n: "n \<le> length (fullTranscriptHistory s)"
      and tr: "tr = join_lines (take n (fullTranscriptHistory s))"
      unfolding handed_over_def by blast
    from n have "take n (fullTranscriptHistory (step e s)) = take n (fullTranscriptHistory s)"
      by (simp add: h)
    with n tr h show ?thesis
      by (intro exI[of _ n]) simp
  qed
  show ?thesis
  proof (cases "e = TimeoutFired")
    case False
    with old show ?thesis
      unfolding handed_over_def by (auto simp: completed_step)
  next
    case True
    have new: "\<exists>n \<le> length (fullTranscriptHistory (step e s)).
        join_lines (fullTranscriptHistory s) = join_lines (take n (fullTranscriptHistory (step e s)))"
      using True by (intro exI[of _ "length (fullTranscriptHistory s)"]) simp
    from runTimeout_completed[of s] True old new show ?thesis
      unfolding handed_over_def by auto
  qed
qed

lemma handed_over_run: "handed_over s \<Longrightarrow> handed_over (run evs s)"
  by (induction evs arbitrary: s) (simp_all add: run_Nil run_Cons handed_over_step)

section \<open>Single-shot termination\<close>

text \<open>
  C1, as stated, fails in its last clause: it says that exactly one shutdown sequence is
  executed per session.  When the user ends \<open>live_session\<close>, the closure runs
  \<open>disconnect\<close> and calls \<^verbatim>\<open>onComplete\<close>, on which the application unmounts the
  component; the cleanup of the effect then runs \<open>disconnect\<close> a second time.  The
  trace shows the second run after the call of \<^verbatim>\<open>onComplete\<close>: with every handle
  released, it repeats the cancelling of the animation frame.  One reason is recorded
  and \<^verbatim>\<open>onComplete\<close> is called once.
\<close>

theorem termination_second_disconnect_counterexample:
  "run [EndButton, Elapse 2000, TimeoutFired, Unmount] live_session =
     disconnect ((run [EndButton, Elapse 2000, TimeoutFired] live_session)\<lparr>isMounted := False\<rparr>) \<and>
   trace (run [EndButton, Elapse 2000, TimeoutFired] live_session) =
     [DetachCaptureCallback, DisconnectProcessor, CloseTransport, StopTrack 0, StopTrack 1,
      CloseOutputContext, CloseInputContext, CancelAnimationFrame 7,
      OnComplete [] ''User ended session''] \<and>
   trace (run [EndButton, Elapse 2000, TimeoutFired, Unmount] live_session) =
     [DetachCaptureCallback, DisconnectProcessor, CloseTransport, StopTrack 0, StopTrack 1,
      CloseOutputContext, CloseInputContext, CancelAnimationFrame 7,
      OnComplete [] ''User ended session'', CancelAnimationFrame 7] \<and>
   recordedReasons (run [EndButton, Elapse 2000, TimeoutFired, Unmount] live_session) =
     [''User ended session''] \<and>
   completed (run [EndButton, Elapse 2000, TimeoutFired, Unmount] live_session) =
     [([], ''User ended session'')]"
proof -
  have m: "isMounted (run [EndButton, Elapse 2000, TimeoutFired] live_session)"
    by (simp add: run_def live_session_eq initial_def handleTermination_def runTimeout_def
        shutdown_def Let_def)
  have u: "run [EndButton, Elapse 2000, TimeoutFired, Unmount] live_session =
     disconnect ((run [EndButton, Elapse 2000, TimeoutFired] live_session)\<lparr>isMounted := False\<rparr>)"
    using m run_snoc[of "[EndButton, Elapse 2000, TimeoutFired]" Unmount live_session]
    by (simp add: cleanup_def)
  have a: "trace (run [EndButton, Elapse 2000, TimeoutFired] live_session) =
     [DetachCaptureCallback, DisconnectProcessor, CloseTransport, StopTrack 0, StopTrack 1,
      CloseOutputContext, CloseInputContext, CancelAnimationFrame 7,
      OnComplete [] ''User ended session'']"
    by (simp add: run_def live_session_eq initial_def handleTermination_def runTimeout_def
        shutdown_def Let_def disconnect_trace)
  have b: "trace (run [EndButton, Elapse 2000, TimeoutFired, Unmount] live_session) =
     [DetachCaptureCallback, DisconnectProcessor, CloseTransport, StopTrack 0, StopTrack 1,
      CloseOutputContext, CloseInputContext, CancelAnimationFrame 7,
      OnComplete [] ''User ended session'', CancelAnimationFrame 7]"
    by (simp add: run_def live_session_eq initial_def handleTermination_def runTimeout_def
        shutdown_def Let_def cleanup_def disconnect_trace)
  have c: "completed (run [EndButton, Elapse 2000, TimeoutFired, Unmount] live_session) =
     [([], ''User ended session'')]"
    "pendingTimeouts (run [EndButton, Elapse 2000, TimeoutFired, Unmount] live_session) = []"
    by (simp_all add: run_def live_session_eq initial_def handleTermination_def runTimeout_def
        shutdown_def Let_def cleanup_def)
  show ?thesis
    using u a b c by (simp add: recordedReasons_def)
qed

text \<open>
  C1, amended.  Termination is single-shot.  In every run of the component the number of
  reasons recorded by termination closures, pending or already run, is one if
  termination was triggered and zero otherwise, and \<^verbatim>\<open>onComplete\<close> is called at most
  once.  In a session that is live, the first call of \<open>handleTermination\<close> sets the
  flag and schedules one closure holding its reason, two seconds ahead; every later call
  returns the state unchanged, and whatever events follow, in any order (tool calls,
  the button, timer ticks, focus losses, transport close), the recorded reason stays
  that of the first call.  When the two seconds have passed and the timer fires, that
  closure is executed: it runs \<open>disconnect\<close>, which releases the capture callback, the
  transport and the capture stream, and then calls \<^verbatim>\<open>onComplete\<close> with the transcript
  and the first reason.  It is executed exactly once: afterwards nothing is pending, and
  no later event calls \<^verbatim>\<open>onComplete\<close> again.  The sequence \<open>disconnect\<close> itself is run
  once more by the cleanup of the effect whenever the mounted component unmounts.
\<close>

theorem termination_single_shot:
  "length (recordedReasons (run evs initial)) =
     (if terminationTriggered (run evs initial) then 1 else 0) \<and>
   length (completed (run evs initial)) \<le> 1 \<and>
   (\<not> terminationTriggered s \<longrightarrow>
      terminationTriggered (handleTermination r s) \<and>
      pendingTimeouts (handleTermination r s) = pendingTimeouts s @ [(now s + 2000, r)] \<and>
      completed (handleTermination r s) = completed s \<and>
      handleTermination r' (handleTermination r s) = handleTermination r s \<and>
      terminationTriggered (run evs' (handleTermination r s)) \<and>
      recordedReasons (run evs' (handleTermination r s)) = recordedReasons s @ [r]) \<and>
   (\<not> terminationTriggered s \<and> pendingTimeouts s = [] \<longrightarrow>
      completed (run [Elapse 2000, TimeoutFired] (handleTermination r s)) =
        completed s @ [(join_lines (fullTranscriptHistory s), r)] \<and>
      trace (run [Elapse 2000, TimeoutFired] (handleTermination r s)) =
        trace s @ disconnect_effects s @ [OnComplete (join_lines (fullTranscriptHistory s)) r] \<and>
      pendingTimeouts (run [Elapse 2000, TimeoutFired] (handleTermination r s)) = [] \<and>
      \<not> isConnected (run [Elapse 2000, TimeoutFired] (handleTermination r s)) \<and>
      \<not> scriptProcessorRef (run [Elapse 2000, TimeoutFired] (handleTermination r s)) \<and>
      sessionRef (run [Elapse 2000, TimeoutFired] (handleTermination r s)) = None \<and>
      streamRef (run [Elapse 2000, TimeoutFired] (handleTermination r s)) = None \<and>
      completed (run evs' (run [Elapse 2000, TimeoutFired] (handleTermination r s))) =
        completed s @ [(join_lines (fullTranscriptHistory s), r)]) \<and>
   (isMounted s \<longrightarrow>
      step Unmount s = disconnect (s\<lparr>isMounted := False\<rparr>) \<and>
      trace (step Unmount s) = trace s @ disconnect_effects s)"
proof -
  have "single_shot initial"
    by (simp add: single_shot_def recordedReasons_def initial_def)
  then have a: "single_shot (run evs initial)"
    by (rule single_shot_run)
  then have b: "length (completed (run evs initial)) \<le> 1"
    by (simp add: single_shot_def recordedReasons_def split: if_splits)
  have c: "recordedReasons (handleTermination r s) = recordedReasons s @ [r]"
    if "\<not> terminationTriggered s"
    using that by (simp add: recordedReasons_def)
  have first: "\<not> terminationTriggered s \<longrightarrow>
      terminationTriggered (handleTermination r s) \<and>
      pendingTimeouts (handleTermination r s) = pendingTimeouts s @ [(now s + 2000, r)] \<and>
      completed (handleTermination r s) = completed s \<and>
      handleTermination r' (handleTermination r s) = handleTermination r s \<and>
      terminationTriggered (run evs' (handleTermination r s)) \<and>
      recordedReasons (run evs' (handleTermination r s)) = recordedReasons s @ [r]"
    using c recorded_frozen_run[of "handleTermination r s" evs']
    by (simp add: handleTermination_triggered)
  define s1 where "s1 = run [Elapse 2000, TimeoutFired] (handleTermination r s)"
  have fired: "completed s1 = completed s @ [(join_lines (fullTranscriptHistory s), r)] \<and>
      trace s1 = trace s @ disconnect_effects s @ [OnComplete (join_lines (fullTranscriptHistory s)) r] \<and>
      pendingTimeouts s1 = [] \<and> terminationTriggered s1 \<and>
      \<not> isConnected s1 \<and> \<not> scriptProcessorRef s1 \<and> sessionRef s1 = None \<and> streamRef s1 = None"
    if live: "\<not> terminationTriggered s" "pendingTimeouts s = []"
    using live unfolding s1_def
    by (simp add: run_def handleTermination_def runTimeout_def shutdown_def Let_def
        disconnect_trace disconnect_effects_eq)
  have after: "completed (run evs' s1) = completed s @ [(join_lines (fullTranscriptHistory s), r)]"
    if live: "\<not> terminationTriggered s" "pendingTimeouts s = []"
    using fired[OF live] drained_run[of s1 evs'] by simp
  have second: "\<not> terminationTriggered s \<and> pendingTimeouts s = [] \<longrightarrow>
      completed s1 = completed s @ [(join_lines (fullTranscriptHistory s), r)] \<and>
      trace s1 = trace s @ disconnect_effects s @ [OnComplete (join_lines (fullTranscriptHistory s)) r] \<and>
      pendingTimeouts s1 = [] \<and>
      \<not> isConnected s1 \<and> \<not> scriptProcessorRef s1 \<and> sessionRef s1 = None \<and> streamRef s1 = None \<and>
      completed (run evs' s1) = completed s @ [(join_lines (fullTranscriptHistory s), r)]"
    using fired after by blast
  have unmount: "isMounted s \<longrightarrow>
      step Unmount s = disconnect (s\<lparr>isMounted := False\<rparr>) \<and>
      trace (step Unmount s) = trace s @ disconnect_effects s"
    by (simp add: cleanup_def disconnect_trace disconnect_effects_eq)
  from a b first second unmount show ?thesis
    unfolding s1_def single_shot_def by blast
qed

theorem termination_single_shot_witness:
  "\<not> terminationTriggered live_session \<and> pendingTimeouts live_session = [] \<and>
   isMounted live_session \<and>
   pendingTimeouts (handleTermination ''User ended session'' live_session) =
     [(2000, ''User ended session'')] \<and>
   recordedReasons (run [Message endInterview_message, Tick, VisibilityChange True,
       TransportClose, Elapse 2000, TimeoutFired, EndButton]
       (handleTermination ''User ended session'' live_session))
     = [''User ended session''] \<and>
   completed (run [Elapse 2000, TimeoutFired]
       (handleTermination ''User ended session'' live_session)) =
     [([], ''User ended session'')] \<and>
   trace (run [Elapse 2000, TimeoutFired]
       (handleTermination ''User ended session'' live_session)) =
     [DetachCaptureCallback, DisconnectProcessor, CloseTransport, StopTrack 0, StopTrack 1,
      CloseOutputContext, CloseInputContext, CancelAnimationFrame 7,
      OnComplete [] ''User ended session''] \<and>
   completed (run [TimeoutFired, EndButton, Tick, Unmount] (run [Elapse 2000, TimeoutFired]
       (handleTermination ''User ended session'' live_session))) =
     [([], ''User ended session'')]"
proof -
  have live: "\<not> terminationTriggered live_session" "pendingTimeouts live_session = []"
    "now live_session = 0" "recordedReasons live_session = []" "isMounted live_session"
    "completed live_session = []" "trace live_session = []"
    "fullTranscriptHistory live_session = []"
    by (simp_all add: live_session_eq initial_def recordedReasons_def)
  have f: "disconnect_effects live_session =
     [DetachCaptureCallback, DisconnectProcessor, CloseTransport, StopTrack 0, StopTrack 1,
      CloseOutputContext, CloseInputContext, CancelAnimationFrame 7]"
    by (simp add: disconnect_effects_eq live_session_eq initial_def)
  from termination_single_shot[where evs = "[]" and s = live_session
      and r = "''User ended session''"] live
  show ?thesis by (simp add: f)
qed

section \<open>Playback scheduling\<close>

text \<open>
  C2 does not hold of src/components/InterviewSession.tsx.  Its audio branch never reads
  the clock of the output context: it starts each buffer at the cursor and advances the
  cursor by the duration.  In \<open>live_session\<close> the cursor is 0; two one-second units
  that arrive when the clock reads 5 and 5.2 are started at 0 and at 1, both in the
  past, where the specification asks for \<open>max 5 0 = 5\<close> and then 6.  The variant
  src/unnamed/part_001 takes the maximum with the clock and starts them at 5 and 6.
\<close>

theorem schedule_audio_ignores_clock:
  "nextAudioStartTime live_session = 0 \<and>
   trace (run [Message audio_message, Message audio_message] live_session) =
     [StartSource 0 1, StartSource 1 1] \<and>
   nextAudioStartTime (run [Message audio_message, Message audio_message] live_session) = 2 \<and>
   max 5 (nextAudioStartTime live_session) = 5 \<and>
   trace (schedule_part_001 [(5, 1), (26 / 5, 1)] live_session) =
     [StartSource 5 1, StartSource 6 1] \<and>
   nextAudioStartTime (schedule_part_001 [(5, 1), (26 / 5, 1)] live_session) = 7"
  by (simp add: live_session_eq initial_def run_def onmessage_def onmessage_toolCall_def
      onmessage_text_def onmessage_turnComplete_def onmessage_audio_def message_text_def
      message_inlineData_def message_turnComplete_def first_part_def audio_message_def
      scheduleAudio_def scheduleAudio_part_001_def Let_def)

text \<open>
  The handler of src/unnamed/part_001 does what the specification says: each unit starts at the
  maximum of the clock and the cursor, and the cursor moves to that start plus the
  duration.  Hence, for durations that are not negative, the start times handed to
  \<^verbatim>\<open>src.start\<close> never decrease, and unit \<open>k\<close> starts no earlier than the first start
  plus the durations of the units before it.
\<close>

lemma start_times_append: "start_times (es @ es') = start_times es @ start_times es'"
  by (induction es rule: start_times.induct) simp_all

lemma schedule_part_001_starts:
  "start_times (trace (schedule_part_001 units s)) =
     start_times (trace s) @ starts_from (nextAudioStartTime s) units"
  by (induction units s rule: schedule_part_001.induct)
    (simp_all add: scheduleAudio_part_001_def Let_def start_times_append)

lemma starts_from_length: "length (starts_from next units) = length units"
  by (induction "next" units rule: starts_from.induct) simp_all

lemma starts_from_lower:
  "\<forall>u \<in> set units. 0 \<le> snd u \<Longrightarrow> k < length units \<Longrightarrow>
     next + sum_list (take k (map snd units)) \<le> starts_from next units ! k"
proof (induction "next" units arbitrary: k rule: starts_from.induct)
  case (1 "next")
  then show ?case by simp
next
  case (2 "next" c d units)
  show ?case
  proof (cases k)
    case 0
    then show ?thesis by simp
  next
    case (Suc j)
    from "2.prems" have ds: "\<forall>u \<in> set units. 0 \<le> snd u" by simp
    from "2.prems" Suc have j: "j < length units" by simp
    have "max c next + d + sum_list (take j (map snd units)) \<le>
        starts_from (max c next + d) units ! j"
      using ds j by (rule "2.IH")
    then have "next + (d + sum_list (take j (map snd units))) \<le>
        starts_from (max c next + d) units ! j"
      by linarith
    with Suc show ?thesis by simp
  qed
qed

lemma starts_from_first_relative:
  "\<forall>u \<in> set units. 0 \<le> snd u \<Longrightarrow> k < length units \<Longrightarrow>
     starts_from next units ! 0 + sum_list (take k (map snd units)) \<le> starts_from next units ! k"
proof (induction "next" units rule: starts_from.induct)
  case (1 "next")
  then show ?case by simp
next
  case (2 "next" c d units)
  show ?case
  proof (cases k)
    case 0
    then show ?thesis by simp
  next
    case (Suc j)
    from "2.prems" have ds: "\<forall>u \<in> set units. 0 \<le> snd u" by simp
    from "2.prems" Suc have j: "j < length units" by simp
    have low: "max c next + d + sum_list (take j (map snd units)) \<le>
        starts_from (max c next + d) units ! j"
      using ds j by (rule starts_from_lower)
    have first: "starts_from next ((c, d) # units) ! 0 = max c next"
      by simp
    have kth: "starts_from next ((c, d) # units) ! k = starts_from (max c next + d) units ! j"
      using Suc by simp
    have durs: "sum_list (take k (map snd ((c, d) # units))) =
        d + sum_list (take j (map snd units))"
      using Suc by simp
    show ?thesis
      unfolding first kth durs using low by linarith
  qed
qed

lemma starts_from_ge:
  "\<forall>u \<in> set units. 0 \<le> snd u \<Longrightarrow> x \<in> set (starts_from next units) \<Longrightarrow> next \<le> x"
proof (induction "next" units rule: starts_from.induct)
  case (1 "next")
  then show ?case by simp
next
  case (2 "next" c d units)
  from "2.prems" have ds: "\<forall>u \<in> set units. 0 \<le> snd u" and d: "0 \<le> d" by simp_all
  from "2.prems" have "x = max c next \<or> x \<in> set (starts_from (max c next + d) units)"
    by simp
  then show ?case
  proof
    assume "x = max c next"
    then show ?thesis by simp
  next
    assume "x \<in> set (starts_from (max c next + d) units)"
    with ds have "max c next + d \<le> x" by (rule "2.IH")
    with d show ?thesis by linarith
  qed
qed

lemma starts_from_sorted:
  "\<forall>u \<in> set units. 0 \<le> snd u \<Longrightarrow> sorted (starts_from next units)"
proof (induction "next" units rule: starts_from.induct)
  case (1 "next")
  then show ?case by simp
next
  case (2 "next" c d units)
  from "2.prems" have ds: "\<forall>u \<in> set units. 0 \<le> snd u" and d: "0 \<le> d" by simp_all
  have "max c next \<le> x" if "x \<in> set (starts_from (max c next + d) units)" for x
  proof -
    from ds that have "max c next + d \<le> x" by (rule starts_from_ge)
    with d show ?thesis by linarith
  qed
  then have head: "\<forall>x \<in> set (starts_from (max c next + d) units). max c next \<le> x"
    by blast
  from ds have tail: "sorted (starts_from (max c next + d) units)"
    by (rule "2.IH")
  show ?case
    unfolding starts_from.simps sorted_simps using head tail by blast
qed

lemma part_001_gapless:
  "\<forall>u \<in> set units. 0 \<le> snd u \<Longrightarrow> trace s = [] \<Longrightarrow>
     sorted (start_times (trace (schedule_part_001 units s))) \<and>
     (\<forall>k < length units.
        start_times (trace (schedule_part_001 units s)) ! 0 + sum_list (take k (map snd units))
          \<le> start_times (trace (schedule_part_001 units s)) ! k)"
proof -
  assume ds: "\<forall>u \<in> set units. 0 \<le> snd u" and empty: "trace s = []"
  have eq: "start_times (trace (schedule_part_001 units s)) =
      starts_from (nextAudioStartTime s) units"
    by (simp add: schedule_part_001_starts empty)
  show ?thesis
    unfolding eq
    using starts_from_sorted[OF ds] starts_from_first_relative[OF ds] by blast
qed

section \<open>Order of the shutdown\<close>

text \<open>
  C3, as stated, fails: it puts the stopping of playback third and the release of the
  output device last.  When the user ends \<open>live_session\<close> and the two seconds have
  passed, the capture tracks are stopped and the output context is closed before the
  animation frame is cancelled, and no playback source is stopped before the capture
  device is released.
\<close>

theorem shutdown_order_counterexample:
  "trace (run [EndButton, Elapse 2000, TimeoutFired] live_session) =
     [DetachCaptureCallback, DisconnectProcessor, CloseTransport, StopTrack 0, StopTrack 1,
      CloseOutputContext, CloseInputContext, CancelAnimationFrame 7,
      OnComplete [] ''User ended session''] \<and>
   \<not> sorted (map spec_shutdown_rank (trace (run [EndButton, Elapse 2000, TimeoutFired] live_session)))"
proof -
  have a: "trace (run [EndButton, Elapse 2000, TimeoutFired] live_session) =
     [DetachCaptureCallback, DisconnectProcessor, CloseTransport, StopTrack 0, StopTrack 1,
      CloseOutputContext, CloseInputContext, CancelAnimationFrame 7,
      OnComplete [] ''User ended session'']"
    by (simp add: run_def live_session_eq initial_def handleTermination_def runTimeout_def
        shutdown_def Let_def disconnect_trace)
  show ?thesis
    unfolding a by simp
qed

text \<open>
  C3, amended.  \<open>handleTermination\<close> itself releases nothing and does not call
  \<^verbatim>\<open>onComplete\<close>; it schedules a closure due two seconds later, which does not run before
  that.  Once due, the closure first runs \<open>disconnect\<close> and only then calls
  \<^verbatim>\<open>onComplete\<close>, with the newline-joined transcript and the reason it captured.  The
  release calls of \<open>disconnect\<close> are made in the order: capture callback detached and
  processor node disconnected, transport closed, capture tracks stopped, output context
  closed, input context closed, pending animation frame cancelled; each is made only
  for a handle that is still held.  In particular the capture callback is detached
  before the transport is closed.
\<close>

theorem shutdown_order:
  "trace (disconnect s) = trace s @ disconnect_effects s \<and>
   disconnect_effects s =
     (if scriptProcessorRef s then [DetachCaptureCallback, DisconnectProcessor] else []) @
     (case sessionRef s of None \<Rightarrow> []
      | Some t \<Rightarrow> if closeThrows t then [CloseTransport, ConsoleError] else [CloseTransport]) @
     (case streamRef s of None \<Rightarrow> [] | Some tracks \<Rightarrow> map StopTrack tracks) @
     (if audioContextRef s \<in> {None, Some Closed} then [] else [CloseOutputContext]) @
     (if inputAudioContextRef s \<in> {None, Some Closed} then [] else [CloseInputContext]) @
     (if animationRef s \<noteq> 0 then [CancelAnimationFrame (animationRef s)] else []) @
     map StopSource (sourcesRef s) \<and>
   sorted (map shutdown_rank (disconnect_effects s @ [OnComplete transcript r])) \<and>
   trace (handleTermination r s) = trace s \<and>
   completed (handleTermination r s) = completed s \<and>
   (\<not> terminationTriggered s \<longrightarrow>
      pendingTimeouts (handleTermination r s) = pendingTimeouts s @ [(now s + 2000, r)]) \<and>
   (pendingTimeouts s = (due, r) # rest \<and> now s < due \<longrightarrow> runTimeout s = s) \<and>
   (pendingTimeouts s = (due, r) # rest \<and> due \<le> now s \<longrightarrow>
      trace (runTimeout s) =
        trace s @ disconnect_effects s @ [OnComplete (join_lines (fullTranscriptHistory s)) r] \<and>
      completed (runTimeout s) = completed s @ [(join_lines (fullTranscriptHistory s), r)] \<and>
      pendingTimeouts (runTimeout s) = rest)"
proof -
  have eff: "disconnect_effects (s\<lparr>pendingTimeouts := rest\<rparr>) = disconnect_effects s"
    by (rule disconnect_effects_cong) simp_all
  have due: "trace (runTimeout s) =
        trace s @ disconnect_effects s @ [OnComplete (join_lines (fullTranscriptHistory s)) r] \<and>
      completed (runTimeout s) = completed s @ [(join_lines (fullTranscriptHistory s), r)] \<and>
      pendingTimeouts (runTimeout s) = rest"
    if "pendingTimeouts s = (due, r) # rest" "due \<le> now s"
    using that eff
    by (simp add: runTimeout_def shutdown_def Let_def disconnect_trace_effects)
  have early: "runTimeout s = s" if "pendingTimeouts s = (due, r) # rest" "now s < due"
    using that by (simp add: runTimeout_def)
  have below: "shutdown_rank e \<le> 7" for e
    by (cases e) simp_all
  have last: "sorted (map shutdown_rank (disconnect_effects s @ [OnComplete transcript r]))"
    using sorted_disconnect_effects[of s] below by (simp add: sorted_append)
  show ?thesis
    using due early last disconnect_trace_effects[of s] disconnect_effects_eq[of s]
    by simp
qed

theorem shutdown_order_witness:
  "\<not> terminationTriggered (step (Message hello_message) live_session) \<and>
   pendingTimeouts ending_session = [(2000, ''Completed'')] \<and>
   now ending_session < 2000 \<and>
   runTimeout ending_session = ending_session \<and>
   2000 \<le> now (step (Elapse 2000) ending_session) \<and>
   completed (runTimeout (step (Elapse 2000) ending_session)) = [(''AI: Hello'', ''Completed'')] \<and>
   trace (runTimeout (step (Elapse 2000) ending_session)) =
     [DetachCaptureCallback, DisconnectProcessor, CloseTransport, StopTrack 0, StopTrack 1,
      CloseOutputContext, CloseInputContext, CancelAnimationFrame 7,
      OnComplete ''AI: Hello'' ''Completed'']"
proof -
  have e: "ending_session = live_session\<lparr>transcriptLines := [(AI, ''Hello'')],
      fullTranscriptHistory := [''AI: Hello''], isAiSpeaking := True,
      terminationTriggered := True, systemMessageLog := [''Ending: Completed''],
      pendingTimeouts := [(2000, ''Completed'')]\<rparr>"
    by (simp add: ending_session_def live_session_eq handler_defs hello_message_def
        endInterview_message_def)
  have p: "pendingTimeouts ending_session = [(2000, ''Completed'')]" "now ending_session = 0"
    "trace ending_session = []" "completed ending_session = []"
    "fullTranscriptHistory ending_session = [''AI: Hello'']"
    by (simp_all add: e live_session_eq initial_def)
  have f: "disconnect_effects (step (Elapse 2000) ending_session) =
     [DetachCaptureCallback, DisconnectProcessor, CloseTransport, StopTrack 0, StopTrack 1,
      CloseOutputContext, CloseInputContext, CancelAnimationFrame 7]"
    by (simp add: disconnect_effects_eq e live_session_eq initial_def)
  have l: "\<not> terminationTriggered (step (Message hello_message) live_session)"
    by (simp add: live_session_eq handler_defs hello_message_def)
  have early: "runTimeout ending_session = ending_session"
    using shutdown_order[where s = ending_session and r = "''Completed''" and due = 2000
        and rest = "[]"] p
    by simp
  have late: "completed (runTimeout (step (Elapse 2000) ending_session)) =
       [(''AI: Hello'', ''Completed'')] \<and>
     trace (runTimeout (step (Elapse 2000) ending_session)) =
       disconnect_effects (step (Elapse 2000) ending_session) @
         [OnComplete ''AI: Hello'' ''Completed'']"
    using shutdown_order[where s = "step (Elapse 2000) ending_session"
        and r = "''Completed''" and due = 2000 and rest = "[]"] p
    by simp
  show ?thesis
    using early late p l unfolding f by simp
qed

section \<open>Transport failure\<close>

text \<open>
  C4, as stated, fails: it says that a transport close or error in a connected session
  runs the shutdown sequence.  In \<open>live_session\<close> the close callback sets the
  displayed status to \<^verbatim>\<open>error\<close> and does nothing else: termination is not triggered,
  nothing is scheduled or released, the capture callback stays attached and connected,
  and the next captured frame is still sent.
\<close>

theorem transport_close_counterexample:
  "status live_session = Connected \<and>
   status (step TransportClose live_session) = Error \<and>
   \<not> terminationTriggered (step TransportClose live_session) \<and>
   pendingTimeouts (step TransportClose live_session) = [] \<and>
   completed (step TransportClose live_session) = [] \<and>
   trace (step TransportClose live_session) = [] \<and>
   isConnected (step TransportClose live_session) \<and>
   onaudioprocess (step TransportClose live_session) \<and>
   sessionRef (step TransportClose live_session) = Some (Transport False) \<and>
   streamRef (step TransportClose live_session) = Some [0, 1] \<and>
   trace (step (AudioProcess [3 / 100, 4 / 100, 0] 48000) (step TransportClose live_session)) =
     [SendRealtimeInput [3 / 100]]"
  by (simp add: live_session_eq initial_def onclose_def onaudioprocess_handler_trace
      downsampleBuffer_def interpolate_def Let_def)

text \<open>
  C4, amended.  When the transport closes or reports an error, the displayed status
  becomes \<^verbatim>\<open>error\<close>, so it is never left at \<^verbatim>\<open>connected\<close>, and the error callback logs
  to the console.  Nothing else changes: no termination is triggered, no shutdown step
  runs, and the connection flag and every handle stay as they were.  This holds for
  any number of such events in a row; the session ends only through another trigger
  or on unmount.
\<close>

theorem transport_failure_sets_status:
  "(transport_failure e \<longrightarrow>
      status (step e s) = Error \<and>
      step e s = s\<lparr>status := Error,
                    trace := trace s @ (if e = TransportError then [ConsoleError] else [])\<rparr>) \<and>
   (evs \<noteq> [] \<and> list_all transport_failure evs \<longrightarrow>
      status (run evs s) = Error \<and>
      run evs s = s\<lparr>status := Error,
                     trace := trace s @
                       replicate (length (filter (\<lambda>e. e = TransportError) evs)) ConsoleError\<rparr>)"
proof -
  have one: "status (step e s) = Error \<and>
     step e s = s\<lparr>status := Error,
                   trace := trace s @ (if e = TransportError then [ConsoleError] else [])\<rparr>"
    if "transport_failure e" for e s
    using that by (auto simp: transport_failure_def onerror_def onclose_def)
  have many: "status (run evs s) = Error \<and>
     run evs s = s\<lparr>status := Error,
                    trace := trace s @
                      replicate (length (filter (\<lambda>e. e = TransportError) evs)) ConsoleError\<rparr>"
    if "evs \<noteq> []" "list_all transport_failure evs"
    using that
  proof (induction evs rule: rev_induct)
    case Nil
    then show ?case by simp
  next
    case (snoc e evs)
    then have e: "transport_failure e" and all: "list_all transport_failure evs"
      by simp_all
    show ?case
    proof (cases "evs = []")
      case True
      with one[OF e, of s] show ?thesis
        by (auto simp: run_def)
    next
      case False
      from snoc.IH[OF False all] one[OF e, of "run evs s"]
      show ?thesis
        by (auto simp: run_snoc replicate_append_same)
    qed
  qed
  from one many show ?thesis by blast
qed

theorem transport_failure_sets_status_witness:
  "transport_failure TransportClose \<and>
   step TransportClose live_session = live_session\<lparr>status := Error\<rparr> \<and>
   list_all transport_failure [TransportError, TransportClose] \<and>
   run [TransportError, TransportClose] live_session =
     live_session\<lparr>status := Error, trace := [ConsoleError]\<rparr>"
proof -
  have a: "transport_failure TransportClose" "transport_failure TransportError"
    by (simp_all add: transport_failure_def)
  have t: "trace live_session = []"
    by (simp add: live_session_eq initial_def)
  from transport_failure_sets_status[of TransportClose live_session "[TransportError, TransportClose]"]
  show ?thesis using a t by simp
qed

section \<open>Resampling\<close>

text \<open>
  C5.  The resampled frame has \<open>floor (length frame * targetRate / sourceRate)\<close> samples.
  For rates with \<open>0 < targetRate \<le> sourceRate\<close>, output sample \<open>i\<close> lies at the source
  position \<open>i * sourceRate / targetRate\<close>, whose integer part is an index of the frame,
  and is the linear interpolation between the sample at that index and the next one,
  weighted by the fractional part of the position; where there is no next sample the
  fractional part is zero.
\<close>

theorem downsample_length_interpolation:
  "length (downsampleBuffer frame sourceRate targetRate) =
     nat \<lfloor>real (length frame) * targetRate / sourceRate\<rfloor> \<and>
   (0 < targetRate \<and> targetRate \<le> sourceRate \<and>
    i < length (downsampleBuffer frame sourceRate targetRate) \<longrightarrow>
      nat \<lfloor>real i * sourceRate / targetRate\<rfloor> < length frame \<and>
      0 \<le> real i * sourceRate / targetRate - real (nat \<lfloor>real i * sourceRate / targetRate\<rfloor>) \<and>
      real i * sourceRate / targetRate - real (nat \<lfloor>real i * sourceRate / targetRate\<rfloor>) < 1 \<and>
      (nat \<lfloor>real i * sourceRate / targetRate\<rfloor> + 1 < length frame \<or>
       real i * sourceRate / targetRate - real (nat \<lfloor>real i * sourceRate / targetRate\<rfloor>) = 0) \<and>
      downsampleBuffer frame sourceRate targetRate ! i =
        frame ! nat \<lfloor>real i * sourceRate / targetRate\<rfloor> +
        (frame ! min (nat \<lfloor>real i * sourceRate / targetRate\<rfloor> + 1) (length frame - 1) -
         frame ! nat \<lfloor>real i * sourceRate / targetRate\<rfloor>) *
        (real i * sourceRate / targetRate - real (nat \<lfloor>real i * sourceRate / targetRate\<rfloor>)))"
proof -
  define n where "n = length frame"
  define pos where "pos = real i * sourceRate / targetRate"
  define idx where "idx = nat \<lfloor>pos\<rfloor>"
  have len: "length (downsampleBuffer frame sourceRate targetRate) =
     nat \<lfloor>real n * targetRate / sourceRate\<rfloor>"
    by (simp add: downsampleBuffer_def n_def)
  have main: "idx < n \<and> 0 \<le> pos - real idx \<and> pos - real idx < 1 \<and>
      (idx + 1 < n \<or> pos - real idx = 0) \<and>
      downsampleBuffer frame sourceRate targetRate ! i =
        frame ! idx + (frame ! min (idx + 1) (n - 1) - frame ! idx) * (pos - real idx)"
    if t: "0 < targetRate" and ts: "targetRate \<le> sourceRate"
      and i: "i < length (downsampleBuffer frame sourceRate targetRate)"
  proof -
    have s: "0 < sourceRate" using t ts by linarith
    from i len have i': "i < nat \<lfloor>real n * targetRate / sourceRate\<rfloor>" by simp
    then have "int i + 1 \<le> \<lfloor>real n * targetRate / sourceRate\<rfloor>" by linarith
    then have "real i + 1 \<le> real n * targetRate / sourceRate"
      by (metis of_int_1 of_int_add of_int_of_nat_eq le_floor_iff)
    then have "(real i + 1) * sourceRate \<le> real n * targetRate"
      using s by (simp add: pos_le_divide_eq)
    then have "real i * sourceRate + sourceRate \<le> real n * targetRate"
      by (simp add: algebra_simps)
    then have "real i * sourceRate + targetRate \<le> real n * targetRate"
      using ts by linarith
    then have "real i * sourceRate \<le> (real n - 1) * targetRate"
      by (simp add: algebra_simps)
    then have pos_le: "pos \<le> real n - 1"
      unfolding pos_def using t by (simp add: pos_divide_le_eq)
    have pos_ge: "0 \<le> pos"
      unfolding pos_def using t s by simp
    then have fl: "0 \<le> \<lfloor>pos\<rfloor>" by simp
    then have idx_eq: "real idx = of_int \<lfloor>pos\<rfloor>"
      unfolding idx_def by simp
    have n1: "1 \<le> n" using pos_le pos_ge by linarith
    have "of_int \<lfloor>pos\<rfloor> \<le> pos" by (rule of_int_floor_le)
    with idx_eq have lo: "real idx \<le> pos" by simp
    have "pos < of_int \<lfloor>pos\<rfloor> + 1" by linarith
    with idx_eq have hi: "pos < real idx + 1" by simp
    from lo pos_le have "real idx \<le> real n - 1" by linarith
    with n1 have idx_lt: "idx < n" by linarith
    have edge: "idx + 1 < n \<or> pos - real idx = 0"
    proof (cases "idx + 1 < n")
      case True then show ?thesis by simp
    next
      case False
      with idx_lt have "real idx = real n - 1" by linarith
      with lo pos_le show ?thesis by linarith
    qed
    have nb: "(if idx + 1 < n then frame ! (idx + 1) else frame ! idx) =
        frame ! min (idx + 1) (n - 1)"
    proof (cases "idx + 1 < n")
      case True
      then have "min (idx + 1) (n - 1) = idx + 1" by linarith
      with True show ?thesis by simp
    next
      case False
      with idx_lt have "min (idx + 1) (n - 1) = idx" by linarith
      with False show ?thesis by simp
    qed
    have "downsampleBuffer frame sourceRate targetRate ! i = interpolate frame pos"
      using i' by (simp add: downsampleBuffer_def pos_def n_def)
    also have "\<dots> = frame ! idx +
        ((if idx + 1 < n then frame ! (idx + 1) else frame ! idx) - frame ! idx) * (pos - real idx)"
      using idx_lt by (simp add: interpolate_def Let_def idx_def n_def)
    also have "\<dots> = frame ! idx + (frame ! min (idx + 1) (n - 1) - frame ! idx) * (pos - real idx)"
      by (simp only: nb)
    finally show ?thesis
      using idx_lt lo hi edge by simp
  qed
  show ?thesis
    using len main unfolding n_def pos_def idx_def by blast
qed

theorem downsample_length_interpolation_witness:
  "(0 :: real) < 16000 \<and> (16000 :: real) \<le> 24000 \<and>
   length (downsampleBuffer [0, 3, 6, 9] 24000 16000) = 2 \<and>
   downsampleBuffer [0, 3, 6, 9] 24000 16000 ! 1 = 9 / 2 \<and>
   downsampleBuffer [0, 3, 6, 9] 24000 16000 = [0, 9 / 2]"
proof -
  have v: "downsampleBuffer [0, 3, 6, 9] 24000 16000 = [0, 9 / 2]"
    by (simp add: downsampleBuffer_def interpolate_def Let_def upt_rec)
  from downsample_length_interpolation[of "[0, 3, 6, 9]" 24000 16000 1] v
  show ?thesis by simp
qed

section \<open>Voice activity\<close>




section \<open>Tab switching\<close>



section \<open>Countdown\<close>



section \<open>Repeated and failing release\<close>

text \<open>
  C9.  Every shutdown step is safe on a resource already released.  A second run of
  \<open>disconnect\<close> changes no ref and no state: each handle is null, closed or empty by
  then, so its release is skipped, the transport is not closed again, and the only call
  made is a repeated \<^verbatim>\<open>cancelAnimationFrame\<close> on the frame id already cancelled.  After
  one run the capture callback, transport, capture stream, both contexts and the
  sources are released whatever state they were in before.  A \<^verbatim>\<open>close\<close> of the
  transport that throws is caught: it adds a console error and changes nothing else
  in the state or in the calls that follow; likewise every source is stopped whether or
  not stopping an earlier one throws.  No call outside those two \<^verbatim>\<open>try\<close> blocks can
  throw, so \<open>disconnect\<close> always runs to its end.
\<close>

theorem disconnect_idempotent:
  "disconnect (disconnect s) =
     (disconnect s)\<lparr>trace := trace (disconnect s) @
        (if animationRef s \<noteq> 0 then [CancelAnimationFrame (animationRef s)] else [])\<rparr> \<and>
   CloseTransport \<notin> set (disconnect_effects (disconnect s)) \<and>
   \<not> isConnected (disconnect s) \<and> \<not> scriptProcessorRef (disconnect s) \<and>
   sessionRef (disconnect s) = None \<and> streamRef (disconnect s) = None \<and>
   audioContextRef (disconnect s) \<in> {None, Some Closed} \<and>
   inputAudioContextRef (disconnect s) \<in> {None, Some Closed} \<and>
   sourcesRef (disconnect s) = [] \<and>
   (disconnect (s\<lparr>sessionRef := Some (Transport True)\<rparr>))\<lparr>trace := tr\<rparr> =
     (disconnect (s\<lparr>sessionRef := Some (Transport False)\<rparr>))\<lparr>trace := tr\<rparr> \<and>
   filter (\<lambda>e. e \<noteq> ConsoleError) (disconnect_effects (s\<lparr>sessionRef := Some (Transport True)\<rparr>)) =
     filter (\<lambda>e. e \<noteq> ConsoleError) (disconnect_effects (s\<lparr>sessionRef := Some (Transport False)\<rparr>)) \<and>
   ConsoleError \<in> set (disconnect_effects (s\<lparr>sessionRef := Some (Transport True)\<rparr>)) \<and>
   stop_sources srcs = map StopSource srcs"
proof -
  have twice: "disconnect (disconnect s) =
     (disconnect s)\<lparr>trace := trace (disconnect s) @
        (if animationRef s \<noteq> 0 then [CancelAnimationFrame (animationRef s)] else [])\<rparr>"
    by (rule session.equality)
      (auto simp: disconnect_trace option.map_comp comp_def split: option.splits)
  have again: "disconnect_effects (disconnect s) =
      (if animationRef s \<noteq> 0 then [CancelAnimationFrame (animationRef s)] else [])"
    by (auto simp: disconnect_effects_eq split: option.splits)
  have ctx: "audioContextRef (disconnect s) \<in> {None, Some Closed}"
    "inputAudioContextRef (disconnect s) \<in> {None, Some Closed}"
    by (cases "audioContextRef s"; cases "inputAudioContextRef s"; simp)+
  have throws: "(disconnect (s\<lparr>sessionRef := Some (Transport True)\<rparr>))\<lparr>trace := tr\<rparr> =
     (disconnect (s\<lparr>sessionRef := Some (Transport False)\<rparr>))\<lparr>trace := tr\<rparr>"
    by (rule session.equality) simp_all
  have calls: "filter (\<lambda>e. e \<noteq> ConsoleError) (disconnect_effects (s\<lparr>sessionRef := Some (Transport True)\<rparr>)) =
     filter (\<lambda>e. e \<noteq> ConsoleError) (disconnect_effects (s\<lparr>sessionRef := Some (Transport False)\<rparr>))"
    by (simp add: disconnect_effects_eq)
  have err: "ConsoleError \<in> set (disconnect_effects (s\<lparr>sessionRef := Some (Transport True)\<rparr>))"
    by (simp add: disconnect_effects_eq)
  show ?thesis
    using twice again ctx throws calls err by simp
qed

theorem disconnect_idempotent_witness:
  "disconnect_effects faulty_session =
     [DetachCaptureCallback, DisconnectProcessor, CloseTransport, ConsoleError, StopTrack 0,
      StopTrack 1, CloseOutputContext, CloseInputContext, CancelAnimationFrame 7,
      StopSource (Source True), StopSource (Source False)] \<and>
   sessionRef (disconnect faulty_session) = None \<and>
   sourcesRef (disconnect faulty_session) = [] \<and>
   trace (disconnect (disconnect faulty_session)) =
     trace (disconnect faulty_session) @ [CancelAnimationFrame 7]"
proof -
  have b: "disconnect_effects faulty_session =
     [DetachCaptureCallback, DisconnectProcessor, CloseTransport, ConsoleError, StopTrack 0,
      StopTrack 1, CloseOutputContext, CloseInputContext, CancelAnimationFrame 7,
      StopSource (Source True), StopSource (Source False)]"
    by (simp add: disconnect_effects_eq faulty_session_eq initial_def)
  have a: "animationRef faulty_session = 7"
    by (simp add: faulty_session_eq initial_def)
  from disconnect_idempotent[of faulty_session]
  have "disconnect (disconnect faulty_session) =
     (disconnect faulty_session)\<lparr>trace := trace (disconnect faulty_session) @
        [CancelAnimationFrame 7]\<rparr>"
    by (simp add: a)
  then have "trace (disconnect (disconnect faulty_session)) =
     trace (disconnect faulty_session) @ [CancelAnimationFrame 7]"
    by simp
  with b show ?thesis by simp
qed

section \<open>Transcript\<close>

text \<open>
  C10.  The transcript handed to \<^verbatim>\<open>onComplete\<close> holds agent utterances only.  In every
  run of the component each entry of the transcript history is \<^verbatim>\<open>AI: \<close> followed by the
  text of an agent message among the events, and every displayed transcript line has the
  speaker \<^verbatim>\<open>ai\<close>.  Every transcript passed to \<^verbatim>\<open>onComplete\<close> is the newline join of
  the first entries of that history, all of it at the moment of the call, so it is made
  of such agent entries and of nothing else.  A captured audio frame, the only trace of
  the user's speech, never adds an entry.
\<close>

theorem transcript_agent_only:
  "(\<forall>e \<in> set (fullTranscriptHistory (run evs initial)).
       e \<in> set (concat (map entry_of_event evs)) \<and> (\<exists>t. e = ''AI: '' @ t)) \<and>
   (\<forall>(sp, t) \<in> set (transcriptLines (run evs initial)). sp = AI) \<and>
   (\<forall>(tr, r) \<in> set (completed (run evs initial)).
       \<exists>n \<le> length (fullTranscriptHistory (run evs initial)).
          tr = join_lines (take n (fullTranscriptHistory (run evs initial)))) \<and>
   completed (shutdown r s) = completed s @ [(join_lines (fullTranscriptHistory s), r)] \<and>
   fullTranscriptHistory (step (AudioProcess inputData sampleRate) s) = fullTranscriptHistory s"
proof -
  have pre: "\<exists>t. e = ''AI: '' @ t" if "agent_entry e" for e
    using that unfolding agent_entry_def by (metis append_take_drop_id)
  have inv: "agent_only (run evs initial)"
    by (rule agent_only_run[OF agent_only_initial])
  have origin: "set (fullTranscriptHistory (run evs initial)) \<subseteq> set (concat (map entry_of_event evs))"
    using history_run[of evs initial] by (simp add: initial_def)
  have frame: "fullTranscriptHistory (step (AudioProcess inputData sampleRate) s) = fullTranscriptHistory s"
    by (simp add: history_step)
  have call: "completed (shutdown r s) = completed s @ [(join_lines (fullTranscriptHistory s), r)]"
    by (simp add: shutdown_def Let_def)
  have "handed_over initial"
    by (simp add: handed_over_def initial_def)
  then have "handed_over (run evs initial)"
    by (rule handed_over_run)
  then have joined: "\<forall>(tr, r) \<in> set (completed (run evs initial)).
       \<exists>n \<le> length (fullTranscriptHistory (run evs initial)).
          tr = join_lines (take n (fullTranscriptHistory (run evs initial)))"
    by (simp add: handed_over_def)
  have "\<forall>e \<in> set (fullTranscriptHistory (run evs initial)).
       e \<in> set (concat (map entry_of_event evs)) \<and> (\<exists>t. e = ''AI: '' @ t)"
    using inv origin pre unfolding agent_only_def list_all_iff by blast
  moreover have "\<forall>(sp, t) \<in> set (transcriptLines (run evs initial)). sp = AI"
    using inv unfolding agent_only_def list_all_iff by blast
  ultimately show ?thesis using frame call joined by blast
qed

theorem transcript_agent_only_witness:
  "fullTranscriptHistory (run hello_run initial) = [''AI: Hello''] \<and>
   transcriptLines (run hello_run initial) = [(AI, ''Hello'')] \<and>
   completed (run hello_run initial) = [(''AI: Hello'', ''User ended session'')] \<and>
   ''AI: Hello'' \<in> set (concat (map entry_of_event hello_run)) \<and>
   ''AI: Hello'' = join_lines (take 1 (fullTranscriptHistory (run hello_run initial)))"
proof -
  have h1: "fullTranscriptHistory (run hello_run initial) = [''AI: Hello'']"
    and h2: "transcriptLines (run hello_run initial) = [(AI, ''Hello'')]"
    and h3: "completed (run hello_run initial) = [(''AI: Hello'', ''User ended session'')]"
    by (simp_all add: hello_run_def handler_defs hello_message_def Let_def)
  have e: "''AI: Hello'' \<in> set (concat (map entry_of_event hello_run))"
    by (simp add: hello_run_def hello_message_def message_text_def first_part_def)
  show ?thesis
    using transcript_agent_only[of hello_run] e h1 h2 h3
    by simp
qed

end
